theory Spec2Isabelle
  imports Main "HOL-Library.Word"
begin

unbundle bit_operations_syntax

section \<open>The JNI binding of the asset manager (core/jni/android\_util\_AssetManager.cpp)\<close>

text \<open>
  The file binds the Java class \<open>android.content.res.AssetManager\<close> to the native
  resolution engine \<open>AssetManager2\<close>. The binding functions are embedded one by one, under
  their own names. A \<open>jint\<close> is a 32-bit word read as two's complement (\<open>sint\<close>), a
  \<open>jshort\<close> a 16-bit word, a \<open>jlong\<close> a 64-bit word; \<open>uint8_t\<close>, \<open>uint16_t\<close> and
  \<open>uint32_t\<close> are words of their width, and a \<open>static_cast\<close> between them is \<open>ucast\<close>.
  Signed arithmetic is the arithmetic of words; where an operation of the source would
  leave the range of its signed type the source has no defined result, and the value of
  the word operation stands in for it.
\<close>

type_synonym jint = "32 word"
type_synonym jshort = "16 word"
type_synonym jlong = "64 word"

text \<open>\<open>using ApkAssetsCookie = int32_t\<close>: the index of a loaded source in the stack.\<close>

type_synonym ApkAssetsCookie = "32 word"

subsection \<open>Constants of the engine's headers\<close>

text \<open>
  The binding uses enumerators declared in headers of the engine that are not part of the
  binding file (\<open>androidfw/AssetManager2.h\<close>, \<open>ResourceTypes.h\<close>, \<open>AttributeResolution.h\<close>,
  \<open>Asset.h\<close>). Every function below takes them as the parameter \<open>K\<close>, so that what is
  proved holds for whatever values the headers give.
\<close>

record androidfw =
  kInvalidCookie :: ApkAssetsCookie
  TYPE_NULL :: "8 word"
  TYPE_REFERENCE :: "8 word"
  TYPE_ATTRIBUTE :: "8 word"
  DATA_NULL_UNDEFINED :: "32 word"
  STYLE_NUM_ENTRIES :: nat
  STYLE_TYPE :: nat
  STYLE_DATA :: nat
  STYLE_ASSET_COOKIE :: nat
  STYLE_RESOURCE_ID :: nat
  STYLE_CHANGING_CONFIGURATIONS :: nat
  STYLE_DENSITY :: nat
  ACCESS_UNKNOWN :: jint
  ACCESS_RANDOM :: jint
  ACCESS_STREAMING :: jint
  ACCESS_BUFFER :: jint

text \<open>
  The values the platform's headers assign. They are used to run the functions on concrete
  inputs only.
\<close>

definition platform :: androidfw where
  "platform =
     \<lparr>kInvalidCookie = - 1,
      TYPE_NULL = 0, TYPE_REFERENCE = 1, TYPE_ATTRIBUTE = 2, DATA_NULL_UNDEFINED = 0,
      STYLE_NUM_ENTRIES = 7, STYLE_TYPE = 0, STYLE_DATA = 1, STYLE_ASSET_COOKIE = 2,
      STYLE_RESOURCE_ID = 3, STYLE_CHANGING_CONFIGURATIONS = 4, STYLE_DENSITY = 5,
      ACCESS_UNKNOWN = 0, ACCESS_RANDOM = 1, ACCESS_STREAMING = 2, ACCESS_BUFFER = 3\<rparr>"

subsection \<open>Cookies\<close>

text \<open>
  \<^verbatim>\<open>return cookie != kInvalidCookie ? static_cast<jint>(cookie + 1) : -1;\<close>
  A cookie is the index of a source in the stack that \<open>NativeSetApkAssets\<close> fills from a
  Java array, so it is at most \<open>2^31 - 2\<close>. At \<open>0x7FFFFFFF\<close>, which is no such index,
  \<open>cookie + 1\<close> overflows \<open>int32_t\<close> and the source has no defined result; nothing is
  stated about the encoder there.
\<close>

definition ApkAssetsCookieToJavaCookie :: "androidfw \<Rightarrow> ApkAssetsCookie \<Rightarrow> jint" where
  "ApkAssetsCookieToJavaCookie K cookie =
     (if cookie \<noteq> kInvalidCookie K then cookie + 1 else - 1)"

text \<open>
  \<^verbatim>\<open>return cookie > 0 ? static_cast<ApkAssetsCookie>(cookie - 1) : kInvalidCookie;\<close>
\<close>

definition JavaCookieToApkAssetsCookie :: "androidfw \<Rightarrow> jint \<Rightarrow> ApkAssetsCookie" where
  "JavaCookieToApkAssetsCookie K cookie =
     (if 0 < sint cookie then cookie - 1 else kInvalidCookie K)"

subsection \<open>Resolved values and the Java \<open>TypedValue\<close>\<close>

text \<open>
  The fields of \<open>ResTable_config\<close> that the binding reads or writes. \<open>config_locale\<close> is the
  field \<open>locale\<close> of the C++ struct.
\<close>

record ResTable_config =
  mcc :: "16 word"
  mnc :: "16 word"
  config_locale :: "32 word"
  orientation :: "8 word"
  touchscreen :: "8 word"
  density :: "16 word"
  keyboard :: "8 word"
  navigation :: "8 word"
  inputFlags :: "8 word"
  screenWidth :: "16 word"
  screenHeight :: "16 word"
  sdkVersion :: "16 word"
  screenLayout :: "8 word"
  uiMode :: "8 word"
  smallestScreenWidthDp :: "16 word"
  screenWidthDp :: "16 word"
  screenHeightDp :: "16 word"
  screenLayout2 :: "8 word"
  colorMode :: "8 word"
  grammaticalInflection :: "8 word"

text \<open>
  \<open>AssetManager2::SelectedValue\<close>, with the fields the binding reads: the cookie of the
  source, the raw data, the type tag, the changing-configurations flags, the resolved
  resource id and the matched configuration.
\<close>

record SelectedValue =
  cookie :: ApkAssetsCookie
  data :: "32 word"
  type :: "8 word"
  flags :: "32 word"
  resid :: "32 word"
  config :: ResTable_config

text \<open>
  The Java object \<open>android.util.TypedValue\<close>, with the fields whose ids the binding caches
  in \<open>gTypedValueOffsets\<close>. The fields of the Java class that the binding never names are
  the extension part of the record.
\<close>

record TypedValue =
  mType :: jint
  mData :: jint
  mString :: "string option"
  mAssetCookie :: jint
  mResourceId :: jint
  mChangingConfigurations :: jint
  mDensity :: jint

text \<open>
  \<open>CopyValue\<close>: seven field stores in the order of the source, then the translated cookie
  is returned.
\<close>

definition CopyValue ::
  "androidfw \<Rightarrow> SelectedValue \<Rightarrow> 'a TypedValue_scheme \<Rightarrow> jint \<times> 'a TypedValue_scheme" where
  "CopyValue K v out_typed_value =
     (let t1 = out_typed_value\<lparr>mType := ucast (type v)\<rparr>;
          t2 = t1\<lparr>mAssetCookie := ApkAssetsCookieToJavaCookie K (cookie v)\<rparr>;
          t3 = t2\<lparr>mData := data v\<rparr>;
          t4 = t3\<lparr>mString := None\<rparr>;
          t5 = t4\<lparr>mResourceId := resid v\<rparr>;
          t6 = t5\<lparr>mChangingConfigurations := flags v\<rparr>;
          t7 = t6\<lparr>mDensity := ucast (density (config v))\<rparr>
      in (ApkAssetsCookieToJavaCookie K (cookie v), t7))"

subsection \<open>How a binding function ends\<close>

text \<open>
  A binding function returns to the Java caller, with or without a pending Java exception
  (\<open>jniThrowException\<close> only records the exception; the \<open>return\<close> that follows it hands
  the value back), or it does not return at all: a failed \<open>CHECK\<close> aborts the process, and
  a store past the end of a pinned array, like an iterator range that ends before it starts,
  is undefined behaviour.
\<close>

datatype jthrowable =
    IllegalArgumentException
  | NullPointerException
  | FileNotFoundException
  | IndexOutOfBoundsException
  | IOException

datatype 'a outcome =
    Returns 'a
  | Throws jthrowable 'a
  | Abort
  | UndefinedBehaviour

subsection \<open>Bags and the engine\<close>

text \<open>
  Modelled from the spec: \<open>ResolvedBag::Entry\<close> and the constructor
  \<open>SelectedValue(bag, entry)\<close> are declared in \<open>androidfw/AssetManager2.h\<close>, which is not
  part of the binding file. Following the data model of the spec, a bag is the ordered
  sequence of its entries, an entry is the pair of its key and its resolved-value-like
  payload, \<open>entry_count\<close> is the number of entries, and the constructor yields the payload
  of the entry.
\<close>

record Entry =
  key :: "32 word"
  entry_value :: SelectedValue

record ResolvedBag =
  entries :: "Entry list"

definition entry_count :: "ResolvedBag \<Rightarrow> nat" where
  "entry_count bag = length (entries bag)"

definition SelectedValue_of :: "ResolvedBag \<Rightarrow> Entry \<Rightarrow> SelectedValue" where
  "SelectedValue_of bag entry = entry_value entry"

text \<open>
  The locked \<open>AssetManager2\<close> behind a handle. Its member functions are defined in the
  engine, outside the binding file; the binding is embedded against any engine, given as
  the record of the member functions it calls. A \<open>std::optional\<close> or \<open>base::expected\<close>
  result is an \<open>option\<close>; \<open>ResolveReference\<close> updates the value it is given in place, so
  it yields the updated value. A \<open>std::unique_ptr<Asset>\<close> is the address of the asset,
  \<open>None\<close> for \<open>nullptr\<close>.
\<close>

record AssetManager2 =
  GetResource :: "32 word \<Rightarrow> bool \<Rightarrow> 16 word \<Rightarrow> SelectedValue option"
  GetBag :: "32 word \<Rightarrow> ResolvedBag option"
  ResolveReference :: "SelectedValue \<Rightarrow> SelectedValue option"
  GetBagResIdStack :: "32 word \<Rightarrow> 32 word list option"
  Open :: "string \<Rightarrow> jint \<Rightarrow> jlong option"
  OpenNonAsset :: "string \<Rightarrow> jint \<Rightarrow> jlong option"
  OpenNonAssetInCookie :: "string \<Rightarrow> ApkAssetsCookie \<Rightarrow> jint \<Rightarrow> jlong option"

subsection \<open>\<open>NativeGetResourceValue\<close> and \<open>NativeGetResourceBagValue\<close>\<close>

definition NativeGetResourceValue ::
  "androidfw \<Rightarrow> AssetManager2 \<Rightarrow> jint \<Rightarrow> jshort \<Rightarrow> 'a TypedValue_scheme \<Rightarrow> bool
     \<Rightarrow> (jint \<times> 'a TypedValue_scheme) outcome" where
  "NativeGetResourceValue K assetmanager res dens typed_value resolve_references =
     (case GetResource assetmanager res False dens of
        None \<Rightarrow> Returns (ApkAssetsCookieToJavaCookie K (kInvalidCookie K), typed_value)
      | Some v \<Rightarrow>
          if resolve_references then
            (case ResolveReference assetmanager v of
               None \<Rightarrow> Returns (ApkAssetsCookieToJavaCookie K (kInvalidCookie K), typed_value)
             | Some v' \<Rightarrow> Returns (CopyValue K v' typed_value))
          else Returns (CopyValue K v typed_value))"

text \<open>
  \<open>std::find_if\<close> over the reverse iterators of the bag is \<open>find\<close> on the reversed list
  of entries.
\<close>

definition NativeGetResourceBagValue ::
  "androidfw \<Rightarrow> AssetManager2 \<Rightarrow> jint \<Rightarrow> jint \<Rightarrow> 'a TypedValue_scheme
     \<Rightarrow> (jint \<times> 'a TypedValue_scheme) outcome" where
  "NativeGetResourceBagValue K assetmanager res bag_entry_id typed_value =
     (case GetBag assetmanager res of
        None \<Rightarrow> Returns (ApkAssetsCookieToJavaCookie K (kInvalidCookie K), typed_value)
      | Some bag \<Rightarrow>
          (case find (\<lambda>e. key e = bag_entry_id) (rev (entries bag)) of
             None \<Rightarrow> Returns (ApkAssetsCookieToJavaCookie K (kInvalidCookie K), typed_value)
           | Some entry \<Rightarrow>
               (case ResolveReference assetmanager (SelectedValue_of bag entry) of
                  None \<Rightarrow>
                    Returns (ApkAssetsCookieToJavaCookie K (kInvalidCookie K), typed_value)
                | Some attr_value \<Rightarrow> Returns (CopyValue K attr_value typed_value))))"

subsection \<open>Pinned Java arrays\<close>

text \<open>
  \<open>GetPrimitiveArrayCritical\<close> hands out the elements of a Java array, either in place or
  as a copy, or \<open>nullptr\<close> when it cannot. \<open>ReleasePrimitiveArrayCritical\<close> with mode 0
  makes the stores visible in the Java array; with \<open>JNI_ABORT\<close> the stores are dropped when
  the elements were a copy and stay when they were handed out in place. The behaviour of
  the virtual machine is the parameter \<open>env\<close>: for each array argument whether pinning it
  fails, and whether pinning copies.
\<close>

datatype jarray_arg =
    Arg_out_data
  | Arg_java_attrs
  | Arg_java_values
  | Arg_out_java_values
  | Arg_out_java_indices
  | Arg_style_ids
  | Arg_force

record JNIEnv =
  critical_null :: "jarray_arg \<Rightarrow> bool"
  critical_is_copy :: bool

datatype release_mode = Commit | JNI_ABORT

definition ReleasePrimitiveArrayCritical ::
  "JNIEnv \<Rightarrow> 'a list \<Rightarrow> 'a list \<Rightarrow> release_mode \<Rightarrow> 'a list" where
  "ReleasePrimitiveArrayCritical env array buffer mode =
     (if mode = JNI_ABORT \<and> critical_is_copy env then array else buffer)"

text \<open>
  A store \<open>cursor[i] = x\<close> through the pinned pointer. The array has \<open>length buffer\<close>
  elements; a store at or past that index is outside the array, and the result is \<open>None\<close>.
\<close>

definition store :: "'a list \<Rightarrow> nat \<Rightarrow> 'a \<Rightarrow> 'a list option" where
  "store buffer i x = (if i < length buffer then Some (buffer[i := x]) else None)"

subsection \<open>\<open>NativeGetResourceArray\<close>\<close>

text \<open>
  The special \<open>@null\<close> value: \<^verbatim>\<open>if (attr_value.type == Res_value::TYPE_REFERENCE &&
  attr_value.data == 0) { attr_value.type = Res_value::TYPE_NULL; attr_value.data =
  Res_value::DATA_NULL_UNDEFINED; }\<close>
\<close>

definition null_reference_to_TYPE_NULL :: "androidfw \<Rightarrow> SelectedValue \<Rightarrow> SelectedValue" where
  "null_reference_to_TYPE_NULL K attr_value =
     (if type attr_value = TYPE_REFERENCE K \<and> data attr_value = 0
      then attr_value\<lparr>type := TYPE_NULL K, data := DATA_NULL_UNDEFINED K\<rparr>
      else attr_value)"

text \<open>The six stores of one entry at the cursor, in the order of the source.\<close>

definition store_entry ::
  "androidfw \<Rightarrow> jint list \<Rightarrow> nat \<Rightarrow> SelectedValue \<Rightarrow> jint list option" where
  "store_entry K buffer cursor attr_value =
     Option.bind (store buffer (cursor + STYLE_TYPE K) (ucast (type attr_value))) (\<lambda>b1.
     Option.bind (store b1 (cursor + STYLE_DATA K) (data attr_value)) (\<lambda>b2.
     Option.bind (store b2 (cursor + STYLE_ASSET_COOKIE K)
                    (ApkAssetsCookieToJavaCookie K (cookie attr_value))) (\<lambda>b3.
     Option.bind (store b3 (cursor + STYLE_RESOURCE_ID K) (resid attr_value)) (\<lambda>b4.
     Option.bind (store b4 (cursor + STYLE_CHANGING_CONFIGURATIONS K) (flags attr_value)) (\<lambda>b5.
     store b5 (cursor + STYLE_DENSITY K) (ucast (density (config attr_value))))))))"

text \<open>
  The loop over the entries of the bag, from the entry it has reached, with the cursor as
  an index into the pinned elements. It ends when all entries are stored, when an entry
  cannot be resolved, or with a store outside the array.
\<close>

datatype loop_end =
    Stored "jint list"
  | Unresolved "jint list"
  | Overrun

fun store_entries ::
  "androidfw \<Rightarrow> AssetManager2 \<Rightarrow> ResolvedBag \<Rightarrow> Entry list \<Rightarrow> nat \<Rightarrow> jint list \<Rightarrow> loop_end"
  where
  "store_entries K assetmanager bag [] cursor buffer = Stored buffer"
| "store_entries K assetmanager bag (e # es) cursor buffer =
     (case ResolveReference assetmanager (SelectedValue_of bag e) of
        None \<Rightarrow> Unresolved buffer
      | Some r \<Rightarrow>
          (case store_entry K buffer cursor (null_reference_to_TYPE_NULL K r) of
             None \<Rightarrow> Overrun
           | Some buffer' \<Rightarrow>
               store_entries K assetmanager bag es (cursor + STYLE_NUM_ENTRIES K) buffer'))"

text \<open>
  \<open>out_data\<close> holds the elements of the Java \<open>int[]\<close> the caller passes. The result is
  the returned \<open>jint\<close> with the elements of the array after the call. The size check is
  \<^verbatim>\<open>static_cast<jsize>(bag->entry_count) > out_data_length * STYLE_NUM_ENTRIES\<close>, a
  comparison of two \<open>jsize\<close> values.
\<close>

definition NativeGetResourceArray ::
  "androidfw \<Rightarrow> JNIEnv \<Rightarrow> AssetManager2 \<Rightarrow> jint \<Rightarrow> jint list \<Rightarrow> (jint \<times> jint list) outcome"
  where
  "NativeGetResourceArray K env assetmanager res out_data =
     (case GetBag assetmanager res of
        None \<Rightarrow> Returns (- 1, out_data)
      | Some bag \<Rightarrow>
          if sint (word_of_nat (length out_data) * word_of_nat (STYLE_NUM_ENTRIES K) :: jint)
               < sint (word_of_nat (entry_count bag) :: jint)
          then Throws IllegalArgumentException (- 1, out_data)
          else if critical_null env Arg_out_data then Returns (- 1, out_data)
          else
            (case store_entries K assetmanager bag (entries bag) 0 out_data of
               Unresolved buffer \<Rightarrow>
                 Returns (- 1, ReleasePrimitiveArrayCritical env out_data buffer JNI_ABORT)
             | Overrun \<Rightarrow> UndefinedBehaviour
             | Stored buffer \<Rightarrow>
                 Returns (word_of_nat (entry_count bag),
                          ReleasePrimitiveArrayCritical env out_data buffer Commit)))"

text \<open>
  The offsets of the fields of an entry are distinct and lie within one stride.
\<close>

definition layout_ok :: "androidfw \<Rightarrow> bool" where
  "layout_ok K =
     (distinct [STYLE_TYPE K, STYLE_DATA K, STYLE_ASSET_COOKIE K, STYLE_RESOURCE_ID K,
                STYLE_CHANGING_CONFIGURATIONS K, STYLE_DENSITY K] \<and>
      STYLE_TYPE K < STYLE_NUM_ENTRIES K \<and> STYLE_DATA K < STYLE_NUM_ENTRIES K \<and>
      STYLE_ASSET_COOKIE K < STYLE_NUM_ENTRIES K \<and> STYLE_RESOURCE_ID K < STYLE_NUM_ENTRIES K \<and>
      STYLE_CHANGING_CONFIGURATIONS K < STYLE_NUM_ENTRIES K \<and>
      STYLE_DENSITY K < STYLE_NUM_ENTRIES K)"

subsection \<open>\<open>NativeOpenAsset\<close> and \<open>NativeOpenNonAsset\<close>\<close>

text \<open>
  The calls a binding function makes to the opening operations of the engine are recorded,
  in order, beside its result. \<open>asset_path\<close> is the Java string, \<open>None\<close> for \<open>null\<close>:
  \<open>ScopedUtfChars\<close> throws \<open>NullPointerException\<close> for it and its \<open>c_str()\<close> is
  \<open>nullptr\<close>.
\<close>

datatype engine_call =
    Call_Open string jint
  | Call_OpenNonAsset string jint
  | Call_OpenNonAssetInCookie string ApkAssetsCookie jint

definition bad_access_mode :: "androidfw \<Rightarrow> jint \<Rightarrow> bool" where
  "bad_access_mode K access_mode =
     (access_mode \<noteq> ACCESS_UNKNOWN K \<and> access_mode \<noteq> ACCESS_RANDOM K \<and>
      access_mode \<noteq> ACCESS_STREAMING K \<and> access_mode \<noteq> ACCESS_BUFFER K)"

definition NativeOpenAsset ::
  "androidfw \<Rightarrow> AssetManager2 \<Rightarrow> string option \<Rightarrow> jint \<Rightarrow> jlong outcome \<times> engine_call list"
  where
  "NativeOpenAsset K assetmanager asset_path access_mode =
     (case asset_path of
        None \<Rightarrow> (Throws NullPointerException 0, [])
      | Some asset_path_utf8 \<Rightarrow>
          if bad_access_mode K access_mode
          then (Throws IllegalArgumentException 0, [])
          else
            (case Open assetmanager asset_path_utf8 access_mode of
               None \<Rightarrow>
                 (Throws FileNotFoundException 0, [Call_Open asset_path_utf8 access_mode])
             | Some asset \<Rightarrow> (Returns asset, [Call_Open asset_path_utf8 access_mode])))"

definition NativeOpenNonAsset ::
  "androidfw \<Rightarrow> AssetManager2 \<Rightarrow> jint \<Rightarrow> string option \<Rightarrow> jint
     \<Rightarrow> jlong outcome \<times> engine_call list" where
  "NativeOpenNonAsset K assetmanager jcookie asset_path access_mode =
     (let c = JavaCookieToApkAssetsCookie K jcookie in
      case asset_path of
        None \<Rightarrow> (Throws NullPointerException 0, [])
      | Some asset_path_utf8 \<Rightarrow>
          if bad_access_mode K access_mode
          then (Throws IllegalArgumentException 0, [])
          else if c \<noteq> kInvalidCookie K then
            (case OpenNonAssetInCookie assetmanager asset_path_utf8 c access_mode of
               None \<Rightarrow>
                 (Throws FileNotFoundException 0,
                  [Call_OpenNonAssetInCookie asset_path_utf8 c access_mode])
             | Some asset \<Rightarrow>
                 (Returns asset, [Call_OpenNonAssetInCookie asset_path_utf8 c access_mode]))
          else
            (case OpenNonAsset assetmanager asset_path_utf8 access_mode of
               None \<Rightarrow>
                 (Throws FileNotFoundException 0,
                  [Call_OpenNonAsset asset_path_utf8 access_mode])
             | Some asset \<Rightarrow> (Returns asset, [Call_OpenNonAsset asset_path_utf8 access_mode])))"

subsection \<open>\<open>NativeSetConfiguration\<close>\<close>

text \<open>
  The local \<open>configuration\<close>: \<open>memset\<close> to zero, then one assignment per field, each a
  \<open>static_cast\<close> of the \<open>jint\<close> argument to the width of the field. The arguments that share
  their name with a field of the struct carry a prime. The round qualifier is
  \<^verbatim>\<open>static_cast<uint8_t>((screen_layout & kScreenLayoutRoundMask) >>
  kScreenLayoutRoundShift)\<close> with the mask \<open>0x300\<close> and the shift 8; \<open>>>\<close> on a \<open>jint\<close>
  is the arithmetic shift.
\<close>

definition kScreenLayoutRoundMask :: jint where
  "kScreenLayoutRoundMask = 0x300"

definition kScreenLayoutRoundShift :: nat where
  "kScreenLayoutRoundShift = 8"

definition configuration ::
  "jint \<Rightarrow> jint \<Rightarrow> jint \<Rightarrow> jint \<Rightarrow> jint \<Rightarrow> jint \<Rightarrow> jint \<Rightarrow> jint \<Rightarrow> jint \<Rightarrow> jint \<Rightarrow> jint \<Rightarrow> jint
     \<Rightarrow> jint \<Rightarrow> jint \<Rightarrow> jint \<Rightarrow> jint \<Rightarrow> jint \<Rightarrow> jint \<Rightarrow> ResTable_config" where
  "configuration mcc' mnc' orientation' touchscreen' density' keyboard' keyboard_hidden
       navigation' screen_width screen_height smallest_screen_width_dp screen_width_dp
       screen_height_dp screen_layout ui_mode color_mode grammatical_gender major_version =
     \<lparr>mcc = ucast mcc',
      mnc = ucast mnc',
      config_locale = 0,
      orientation = ucast orientation',
      touchscreen = ucast touchscreen',
      density = ucast density',
      keyboard = ucast keyboard',
      navigation = ucast navigation',
      inputFlags = ucast keyboard_hidden,
      screenWidth = ucast screen_width,
      screenHeight = ucast screen_height,
      sdkVersion = ucast major_version,
      screenLayout = ucast screen_layout,
      uiMode = ucast ui_mode,
      smallestScreenWidthDp = ucast smallest_screen_width_dp,
      screenWidthDp = ucast screen_width_dp,
      screenHeightDp = ucast screen_height_dp,
      screenLayout2 =
        ucast (signed_drop_bit kScreenLayoutRoundShift (screen_layout AND kScreenLayoutRoundMask)),
      colorMode = ucast color_mode,
      grammaticalInflection = ucast grammatical_gender\<rparr>"

text \<open>
  The loop over the locales: every element gets a copy of \<open>configuration\<close> with the locale
  set by \<open>setBcp47Locale\<close>, a member function of \<open>ResTable_config\<close> that is defined in the
  engine and is a parameter here. A \<open>null\<close> element fails the \<open>CHECK\<close> (\<open>None\<close>).
\<close>

fun set_locales ::
  "(string \<Rightarrow> ResTable_config \<Rightarrow> ResTable_config) \<Rightarrow> string option list \<Rightarrow> ResTable_config
     \<Rightarrow> ResTable_config list option" where
  "set_locales setBcp47Locale [] c = Some []"
| "set_locales setBcp47Locale (None # ls) c = None"
| "set_locales setBcp47Locale (Some l # ls) c =
     map_option (\<lambda>cs. setBcp47Locale l c # cs) (set_locales setBcp47Locale ls c)"

text \<open>
  The result is what the function hands to the engine: the configurations and the flag for
  \<open>SetConfigurations\<close>, and the default locale for \<open>SetDefaultLocale\<close>. \<open>locales\<close> is the
  Java array, \<open>None\<close> for \<open>null\<close>, of strings that may be \<open>null\<close>. \<open>uninitialized\<close>
  stands for the contents of the local \<open>config\<close>, which is declared without an
  initializer before \<open>setBcp47Locale\<close> is called on it.
\<close>

definition NativeSetConfiguration ::
  "(string \<Rightarrow> ResTable_config \<Rightarrow> ResTable_config) \<Rightarrow> ResTable_config \<Rightarrow> jint \<Rightarrow> jint
     \<Rightarrow> string option \<Rightarrow> string option list option
     \<Rightarrow> jint \<Rightarrow> jint \<Rightarrow> jint \<Rightarrow> jint \<Rightarrow> jint \<Rightarrow> jint \<Rightarrow> jint \<Rightarrow> jint \<Rightarrow> jint \<Rightarrow> jint \<Rightarrow> jint
     \<Rightarrow> jint \<Rightarrow> jint \<Rightarrow> jint \<Rightarrow> jint \<Rightarrow> jint \<Rightarrow> bool
     \<Rightarrow> (ResTable_config list \<times> bool \<times> 32 word) outcome" where
  "NativeSetConfiguration setBcp47Locale uninitialized mcc' mnc' default_locale locales
       orientation' touchscreen' density' keyboard' keyboard_hidden navigation' screen_width
       screen_height smallest_screen_width_dp screen_width_dp screen_height_dp screen_layout
       ui_mode color_mode grammatical_gender major_version force_refresh =
     (let c = configuration mcc' mnc' orientation' touchscreen' density' keyboard'
                keyboard_hidden navigation' screen_width screen_height
                smallest_screen_width_dp screen_width_dp screen_height_dp screen_layout
                ui_mode color_mode grammatical_gender major_version;
          locale_count = (case locales of None \<Rightarrow> 0 | Some ls \<Rightarrow> length ls);
          configs = (if 0 < locale_count
                     then set_locales setBcp47Locale (case locales of None \<Rightarrow> [] | Some ls \<Rightarrow> ls) c
                     else Some [c]);
          default_locale_int =
            (case default_locale of
               None \<Rightarrow> 0
             | Some l \<Rightarrow> config_locale (setBcp47Locale l uninitialized))
      in case configs of
           None \<Rightarrow> Abort
         | Some cs \<Rightarrow> Returns (cs, force_refresh, default_locale_int))"

subsection \<open>Themes\<close>

text \<open>
  Modelled from the spec: the class \<open>Theme\<close> is defined in the engine, not in the binding
  file. Following the spec (Data Model and Theme), a Theme holds the Resolution Context it
  is attached to, its flattened attribute table (key to resolved value) and its rebase
  log, the ordered list of applied styles (style id, force flag). A context is named by
  the handle the Java side holds for it (the \<open>jlong\<close> that \<open>LockAndStartAssetManager\<close>
  locks); the address \<open>&(*assetmanager)\<close> is a fixed offset from the handle, so two
  contexts are the same object exactly when their handles are equal, and
  \<open>GetAssetManager\<close> is the handle of the context of the Theme.
\<close>

record Theme =
  GetAssetManager :: jlong
  attributes :: "32 word \<rightharpoonup> SelectedValue"
  rebase_log :: "(32 word \<times> bool) list"

text \<open>
  Modelled from the spec: \<open>AssetManager2::NewTheme\<close>. A Theme is created attached to
  exactly one Resolution Context, in the state Empty.
\<close>

definition NewTheme :: "jlong \<Rightarrow> Theme" where
  "NewTheme ptr = \<lparr>GetAssetManager = ptr, attributes = Map.empty, rebase_log = []\<rparr>"

text \<open>
  Modelled from the spec: \<open>Theme::ApplyStyle\<close> resolves the bag of the style in the
  context of the Theme; for each entry, if the attribute key is not yet present in the
  flattened table, or \<open>force\<close> is set, it writes or overwrites it; it appends
  \<open>(resid, force)\<close> to the rebase log. When the bag is not found there is nothing to apply
  and the Theme stays as it is. \<open>contexts\<close> gives the engine behind each handle.
\<close>

definition apply_entry ::
  "ResolvedBag \<Rightarrow> bool \<Rightarrow> (32 word \<rightharpoonup> SelectedValue) \<Rightarrow> Entry \<Rightarrow> (32 word \<rightharpoonup> SelectedValue)"
  where
  "apply_entry bag force table e =
     (if force \<or> table (key e) = None then table(key e \<mapsto> SelectedValue_of bag e) else table)"

definition ApplyStyle :: "(jlong \<Rightarrow> AssetManager2) \<Rightarrow> Theme \<Rightarrow> 32 word \<Rightarrow> bool \<Rightarrow> Theme" where
  "ApplyStyle contexts theme res force =
     (case GetBag (contexts (GetAssetManager theme)) res of
        None \<Rightarrow> theme
      | Some bag \<Rightarrow>
          theme\<lparr>attributes := foldl (apply_entry bag force) (attributes theme) (entries bag),
                rebase_log := rebase_log theme @ [(res, force)]\<rparr>)"

text \<open>Modelled from the spec: \<open>Theme::GetAttribute\<close> is the direct lookup in the flattened table.\<close>

definition GetAttribute :: "Theme \<Rightarrow> 32 word \<Rightarrow> SelectedValue option" where
  "GetAttribute theme res = attributes theme res"

text \<open>
  Modelled from the spec: \<open>Theme::Rebase\<close> clears the flattened table and the rebase log,
  then replays \<open>ApplyStyle\<close> for each \<open>(styleIds[i], force[i])\<close>, \<open>i < count\<close>, against the
  new context, to which the Theme is attached from then on.
\<close>

definition Rebase ::
  "(jlong \<Rightarrow> AssetManager2) \<Rightarrow> Theme \<Rightarrow> jlong \<Rightarrow> 32 word list \<Rightarrow> bool list \<Rightarrow> nat \<Rightarrow> Theme"
  where
  "Rebase contexts theme newContext styleIds force n =
     foldl (\<lambda>t (res, f). ApplyStyle contexts t res f)
       (theme\<lparr>GetAssetManager := newContext, attributes := Map.empty, rebase_log := []\<rparr>)
       (zip (take n styleIds) (take n force))"

text \<open>
  Modelled from the spec: \<open>Theme::SetTo\<close> copies the flattened table and the rebase log
  from the other Theme; the association of the Theme with its own context is preserved.
\<close>

definition SetTo :: "Theme \<Rightarrow> Theme \<Rightarrow> Theme" where
  "SetTo theme other = theme\<lparr>attributes := attributes other, rebase_log := rebase_log other\<rparr>"

subsection \<open>The binding functions that take a context and a Theme\<close>

text \<open>
  Each function receives the handle \<open>ptr\<close> of the context it locks and the Theme behind
  \<open>theme_ptr\<close>. \<^verbatim>\<open>CHECK(theme->GetAssetManager() == &(*assetmanager))\<close> aborts
  when the Theme is attached to another context. A function that returns \<open>void\<close> yields
  the Theme as the call leaves it.
\<close>

definition NativeThemeCreate :: "jlong \<Rightarrow> Theme" where
  "NativeThemeCreate ptr = NewTheme ptr"

definition NativeThemeApplyStyle ::
  "(jlong \<Rightarrow> AssetManager2) \<Rightarrow> jlong \<Rightarrow> Theme \<Rightarrow> jint \<Rightarrow> bool \<Rightarrow> Theme outcome" where
  "NativeThemeApplyStyle contexts ptr theme res force =
     (if GetAssetManager theme \<noteq> ptr then Abort
      else Returns (ApplyStyle contexts theme res force))"

text \<open>
  \<open>style_ids\<close> and \<open>force\<close> are the Java arrays, \<open>None\<close> for \<open>null\<close>. The copies
  \<^verbatim>\<open>std::vector<uint32_t>{style_id_args, style_id_args + style_count}\<close> are the
  first \<open>style_count\<close> elements; a negative \<open>style_count\<close> makes the range end before it
  starts. The function has no \<open>CHECK\<close> on the context of the Theme.
\<close>

definition NativeThemeRebase ::
  "(jlong \<Rightarrow> AssetManager2) \<Rightarrow> JNIEnv \<Rightarrow> jlong \<Rightarrow> Theme \<Rightarrow> jint list option \<Rightarrow> bool list option
     \<Rightarrow> jint \<Rightarrow> Theme outcome" where
  "NativeThemeRebase contexts env ptr theme style_ids force style_count =
     (if (case style_ids of
            Some ids \<Rightarrow> \<not> sint style_count \<le> int (length ids)
          | None \<Rightarrow> style_count \<noteq> 0) then Abort
      else if style_ids \<noteq> None \<and> critical_null env Arg_style_ids then Returns theme
      else if sint style_count < 0 then UndefinedBehaviour
      else if (case force of
                 Some fs \<Rightarrow> \<not> sint style_count \<le> int (length fs)
               | None \<Rightarrow> style_count \<noteq> 0) then Abort
      else if force \<noteq> None \<and> critical_null env Arg_force then Returns theme
      else
        (let n = nat (sint style_count);
             style_id_args_copy = take n (case style_ids of Some ids \<Rightarrow> ids | None \<Rightarrow> []);
             force_args_copy = take n (case force of Some fs \<Rightarrow> fs | None \<Rightarrow> [])
         in Returns (Rebase contexts theme ptr style_id_args_copy force_args_copy n)))"

definition NativeThemeCopy :: "jlong \<Rightarrow> Theme \<Rightarrow> jlong \<Rightarrow> Theme \<Rightarrow> Theme outcome" where
  "NativeThemeCopy dst_asset_manager_ptr dst_theme src_asset_manager_ptr src_theme =
     (if GetAssetManager src_theme \<noteq> src_asset_manager_ptr then Abort
      else if dst_asset_manager_ptr \<noteq> src_asset_manager_ptr then
        (if GetAssetManager dst_theme \<noteq> dst_asset_manager_ptr then Abort
         else Returns (SetTo dst_theme src_theme))
      else Returns (SetTo dst_theme src_theme))"

definition NativeThemeGetAttributeValue ::
  "androidfw \<Rightarrow> (jlong \<Rightarrow> AssetManager2) \<Rightarrow> jlong \<Rightarrow> Theme \<Rightarrow> jint \<Rightarrow> 'a TypedValue_scheme
     \<Rightarrow> bool \<Rightarrow> (jint \<times> 'a TypedValue_scheme) outcome" where
  "NativeThemeGetAttributeValue K contexts ptr theme res typed_value resolve_references =
     (if GetAssetManager theme \<noteq> ptr then Abort
      else
        (case GetAttribute theme res of
           None \<Rightarrow> Returns (ApkAssetsCookieToJavaCookie K (kInvalidCookie K), typed_value)
         | Some v \<Rightarrow>
             if \<not> resolve_references then Returns (CopyValue K v typed_value)
             else
               (case ResolveReference (contexts (GetAssetManager theme)) v of
                  None \<Rightarrow>
                    Returns (ApkAssetsCookieToJavaCookie K (kInvalidCookie K), typed_value)
                | Some v' \<Rightarrow> Returns (CopyValue K v' typed_value))))"

text \<open>\<open>Theme::Dump\<close> writes to the log and changes nothing.\<close>

definition NativeThemeDump :: "jlong \<Rightarrow> Theme \<Rightarrow> unit outcome" where
  "NativeThemeDump ptr theme = (if GetAssetManager theme \<noteq> ptr then Abort else Returns ())"

text \<open>
  The result is the new Java \<open>int[]\<close>, \<open>None\<close> for \<open>nullptr\<close>; \<open>jniThrowIOException\<close>
  throws \<open>IOException\<close>.
\<close>

definition NativeAttributeResolutionStack ::
  "androidfw \<Rightarrow> (jlong \<Rightarrow> AssetManager2) \<Rightarrow> jlong \<Rightarrow> Theme \<Rightarrow> jint \<Rightarrow> jint \<Rightarrow> jint
     \<Rightarrow> jint list option outcome" where
  "NativeAttributeResolutionStack K contexts ptr theme xml_style_res def_style_attr
       def_style_resid =
     (if GetAssetManager theme \<noteq> ptr then Abort
      else
        (let def_style_resid' =
               (if def_style_attr \<noteq> 0 then
                  (case GetAttribute theme def_style_attr of
                     Some v \<Rightarrow> if type v = TYPE_REFERENCE K then data v else def_style_resid
                   | None \<Rightarrow> def_style_resid)
                else def_style_resid)
         in case GetBagResIdStack (contexts ptr) xml_style_res of
              None \<Rightarrow> Throws IOException None
            | Some style_stack \<Rightarrow>
                (case GetBagResIdStack (contexts ptr) def_style_resid' of
                   None \<Rightarrow> Throws IOException None
                 | Some def_style_stack \<Rightarrow> Returns (Some (style_stack @ def_style_stack)))))"

text \<open>
  The attribute-application functions of \<open>androidfw/AttributeResolution.h\<close> (\<open>ApplyStyle\<close>
  and \<open>ResolveAttrs\<close> on a Theme) are defined in the engine; each is a parameter that
  yields what the engine leaves in the output buffers. \<open>NativeApplyStyle\<close> yields \<open>None\<close>
  when it returns before calling the engine.
\<close>

definition NativeApplyStyle ::
  "JNIEnv \<Rightarrow> (Theme \<Rightarrow> 'x \<Rightarrow> 32 word \<Rightarrow> 32 word \<Rightarrow> 32 word list \<Rightarrow> 'r) \<Rightarrow> jlong \<Rightarrow> Theme
     \<Rightarrow> jint \<Rightarrow> jint \<Rightarrow> 'x \<Rightarrow> jint list \<Rightarrow> 'r option outcome" where
  "NativeApplyStyle env engine_ApplyStyle ptr theme def_style_attr def_style_resid xml_parser
       java_attrs =
     (if GetAssetManager theme \<noteq> ptr then Abort
      else if critical_null env Arg_java_attrs then Returns None
      else Returns (Some (engine_ApplyStyle theme xml_parser def_style_attr def_style_resid
                            java_attrs)))"

definition NativeApplyStyleWithArray ::
  "(Theme \<Rightarrow> 'x \<Rightarrow> 32 word \<Rightarrow> 32 word \<Rightarrow> 32 word list \<Rightarrow> 'r) \<Rightarrow> jlong \<Rightarrow> Theme
     \<Rightarrow> jint \<Rightarrow> jint \<Rightarrow> 'x \<Rightarrow> jint list \<Rightarrow> 'r outcome" where
  "NativeApplyStyleWithArray engine_ApplyStyle ptr theme def_style_attr def_style_resid
       xml_parser java_attrs =
     (if GetAssetManager theme \<noteq> ptr then Abort
      else Returns (engine_ApplyStyle theme xml_parser def_style_attr def_style_resid
                      java_attrs))"

text \<open>
  \<open>NativeResolveAttrs\<close> checks the size of \<open>out_java_values\<close> and pins its arrays before
  it locks the context and checks the Theme. \<open>java_values\<close> and \<open>out_java_indices\<close> may
  be \<open>null\<close>; the indices are handed to the engine only when the array has more than
  \<open>attrs_len\<close> elements. The result is the returned \<open>jboolean\<close> with what the engine
  left in the output buffers, \<open>None\<close> when the engine was not called or failed.
\<close>

definition NativeResolveAttrs ::
  "androidfw \<Rightarrow> JNIEnv
     \<Rightarrow> (Theme \<Rightarrow> 32 word \<Rightarrow> 32 word \<Rightarrow> 32 word list option \<Rightarrow> 32 word list \<Rightarrow> bool \<Rightarrow> 'r option)
     \<Rightarrow> jlong \<Rightarrow> Theme \<Rightarrow> jint \<Rightarrow> jint \<Rightarrow> jint list option \<Rightarrow> jint list \<Rightarrow> jint list
     \<Rightarrow> jint list option \<Rightarrow> (bool \<times> 'r option) outcome" where
  "NativeResolveAttrs K env engine_ResolveAttrs ptr theme def_style_attr def_style_resid
       java_values java_attrs out_java_values out_java_indices =
     (let attrs_len = word_of_nat (length java_attrs) :: jint;
          out_values_len = word_of_nat (length out_java_values) :: jint;
          with_indices =
            (case out_java_indices of
               None \<Rightarrow> False
             | Some ixs \<Rightarrow> sint attrs_len < sint (word_of_nat (length ixs) :: jint))
      in if sint out_values_len < sint (attrs_len * word_of_nat (STYLE_NUM_ENTRIES K))
         then Throws IndexOutOfBoundsException (False, None)
         else if critical_null env Arg_java_attrs then Returns (False, None)
         else if java_values \<noteq> None \<and> critical_null env Arg_java_values
         then Returns (False, None)
         else if critical_null env Arg_out_java_values then Returns (False, None)
         else if with_indices \<and> critical_null env Arg_out_java_indices
         then Returns (False, None)
         else if GetAssetManager theme \<noteq> ptr then Abort
         else
           (case engine_ResolveAttrs theme def_style_attr def_style_resid java_values
                   java_attrs with_indices of
              None \<Rightarrow> Returns (False, None)
            | Some r \<Rightarrow> Returns (True, Some r)))"

text \<open>
  The Java caller applying a sequence of styles one by one: one call of
  \<open>NativeThemeApplyStyle\<close> per pair, each on the Theme the previous call left, as long
  as the calls return.
\<close>

fun apply_styles ::
  "(jlong \<Rightarrow> AssetManager2) \<Rightarrow> jlong \<Rightarrow> Theme \<Rightarrow> (jint \<times> bool) list \<Rightarrow> Theme outcome" where
  "apply_styles contexts ptr theme [] = Returns theme"
| "apply_styles contexts ptr theme ((res, force) # rest) =
     (case NativeThemeApplyStyle contexts ptr theme res force of
        Returns theme' \<Rightarrow> apply_styles contexts ptr theme' rest
      | Throws e theme' \<Rightarrow> Throws e theme'
      | Abort \<Rightarrow> Abort
      | UndefinedBehaviour \<Rightarrow> UndefinedBehaviour)"

subsection \<open>Reference resolution\<close>

text \<open>
  Modelled from the spec: \<open>AssetManager2::ResolveReference\<close> is defined in the engine, not
  in the binding file. The spec (Value Resolver) has it iterate until a non-reference,
  non-attribute terminal type is reached or a maximum indirection depth (20) is exceeded,
  which is a failure. One indirection step, \<open>deref\<close>, is the engine's: \<open>GetValue\<close> on the
  referenced id for a reference, the lookup in the Theme in scope for an attribute
  reference; it yields \<open>None\<close> when the lookup finds nothing.
\<close>

definition terminal :: "androidfw \<Rightarrow> SelectedValue \<Rightarrow> bool" where
  "terminal K v = (type v \<noteq> TYPE_REFERENCE K \<and> type v \<noteq> TYPE_ATTRIBUTE K)"

definition kMaxIterations :: nat where
  "kMaxIterations = 20"

fun resolve_loop ::
  "androidfw \<Rightarrow> (SelectedValue \<Rightarrow> SelectedValue option) \<Rightarrow> nat \<Rightarrow> SelectedValue
     \<Rightarrow> SelectedValue option" where
  "resolve_loop K deref 0 v = (if terminal K v then Some v else None)"
| "resolve_loop K deref (Suc n) v =
     (if terminal K v then Some v
      else case deref v of None \<Rightarrow> None | Some v' \<Rightarrow> resolve_loop K deref n v')"

definition spec_ResolveReference ::
  "androidfw \<Rightarrow> (SelectedValue \<Rightarrow> SelectedValue option) \<Rightarrow> SelectedValue
     \<Rightarrow> SelectedValue option" where
  "spec_ResolveReference K deref v = resolve_loop K deref kMaxIterations v"

text \<open>The value \<open>n\<close> indirections down the chain that starts at \<open>v\<close>, if the chain is that long.\<close>

fun chain :: "(SelectedValue \<Rightarrow> SelectedValue option) \<Rightarrow> nat \<Rightarrow> SelectedValue
    \<Rightarrow> SelectedValue option" where
  "chain deref 0 v = Some v"
| "chain deref (Suc n) v = (case deref v of None \<Rightarrow> None | Some v' \<Rightarrow> chain deref n v')"

text \<open>
  The chain from \<open>v\<close> reaches no terminal type within the depth bound: none of the values
  at depth 0 to \<open>kMaxIterations\<close> is terminal.
\<close>

definition overruns ::
  "androidfw \<Rightarrow> (SelectedValue \<Rightarrow> SelectedValue option) \<Rightarrow> SelectedValue \<Rightarrow> bool" where
  "overruns K deref v =
     (\<forall>i \<in> {0 .. kMaxIterations}. case chain deref i v of None \<Rightarrow> True | Some w \<Rightarrow> \<not> terminal K w)"

subsection \<open>Example contexts\<close>

text \<open>Concrete values, bags and engines on which the functions are run.\<close>

definition zero_config :: ResTable_config where
  "zero_config =
     \<lparr>mcc = 0, mnc = 0, config_locale = 0, orientation = 0, touchscreen = 0, density = 0,
      keyboard = 0, navigation = 0, inputFlags = 0, screenWidth = 0, screenHeight = 0,
      sdkVersion = 0, screenLayout = 0, uiMode = 0, smallestScreenWidthDp = 0,
      screenWidthDp = 0, screenHeightDp = 0, screenLayout2 = 0, colorMode = 0,
      grammaticalInflection = 0\<rparr>"

definition plain_value :: "8 word \<Rightarrow> 32 word \<Rightarrow> SelectedValue" where
  "plain_value t d =
     \<lparr>cookie = 0, data = d, type = t, flags = 0, resid = 0, config = zero_config\<rparr>"

definition blank_typed_value :: TypedValue where
  "blank_typed_value =
     \<lparr>mType = 0, mData = 0, mString = Some ''stale'', mAssetCookie = 0, mResourceId = 0,
      mChangingConfigurations = 0, mDensity = 0\<rparr>"

text \<open>
  An engine with one bag, under the id \<open>0x7f010000\<close>, and one resource, under the id
  \<open>0x7f020000\<close>; \<open>resolve\<close> is its reference resolution.
\<close>

definition example_manager ::
  "ResolvedBag \<Rightarrow> SelectedValue \<Rightarrow> (SelectedValue \<Rightarrow> SelectedValue option) \<Rightarrow> AssetManager2" where
  "example_manager bag v resolve =
     \<lparr>GetResource = (\<lambda>r may_be_bag d. if r = 0x7f020000 then Some v else None),
      GetBag = (\<lambda>r. if r = 0x7f010000 then Some bag else None),
      ResolveReference = resolve,
      GetBagResIdStack = (\<lambda>r. Some [r]),
      Open = (\<lambda>p m. None),
      OpenNonAsset = (\<lambda>p m. None),
      OpenNonAssetInCookie = (\<lambda>p c m. None)\<rparr>"

definition example_bag :: ResolvedBag where
  "example_bag =
     \<lparr>entries =
        [\<lparr>key = 7, entry_value = plain_value 16 1\<rparr>,
         \<lparr>key = 7, entry_value = plain_value 16 2\<rparr>,
         \<lparr>key = 9, entry_value = plain_value 16 3\<rparr>]\<rparr>"

text \<open>A bag whose only entry is the \<open>@null\<close> reference, and a virtual machine that pins in place.\<close>

definition null_bag :: ResolvedBag where
  "null_bag = \<lparr>entries = [\<lparr>key = 7, entry_value = plain_value 1 0\<rparr>]\<rparr>"

definition example_env :: JNIEnv where
  "example_env = \<lparr>critical_null = (\<lambda>a. False), critical_is_copy = False\<rparr>"

text \<open>
  Every handle names the example engine with the example bag; the attribute resolution of
  the engine succeeds with the unit value.
\<close>

definition example_contexts :: "jlong \<Rightarrow> AssetManager2" where
  "example_contexts ptr = example_manager example_bag (plain_value 16 0) Some"

definition example_ResolveAttrs ::
  "Theme \<Rightarrow> 32 word \<Rightarrow> 32 word \<Rightarrow> 32 word list option \<Rightarrow> 32 word list \<Rightarrow> bool \<Rightarrow> unit option"
  where
  "example_ResolveAttrs theme def_style_attr def_style_resid vals attrs with_indices = Some ()"

text \<open>A resource whose value is a reference to itself, and the indirection step over it.\<close>

definition self_reference :: SelectedValue where
  "self_reference = plain_value 1 0x7f020000"

definition self_deref :: "SelectedValue \<Rightarrow> SelectedValue option" where
  "self_deref w = (if data w = 0x7f020000 then Some self_reference else None)"

section \<open>Cookies: encoding and decoding\<close>

lemma sint_succ_in_range:
  "0 \<le> sint (c :: 32 word) \<Longrightarrow> sint c < 2147483647 \<Longrightarrow> sint (c + 1) = sint c + 1"
  by (simp add: sint_word_ariths signed_take_bit_int_eq_self)

text \<open>
  Claim C1. For every valid internal cookie \<open>c\<close>, that is every \<open>c \<ge> 0\<close> other than
  \<open>kInvalidCookie\<close> that indexes the stack of loaded sources (so \<open>c < 2^31 - 1\<close>, the stack
  being filled from a Java array), decoding the encoded cookie gives \<open>c\<close> back, and the
  encoded cookie is positive, so it is not the external sentinel. \<open>kInvalidCookie\<close> encodes
  to the external sentinel \<open>-1\<close>, and the sentinel, like every external cookie that is not
  positive, decodes to \<open>kInvalidCookie\<close> and to nothing else.
\<close>

theorem cookie_round_trip:
  "(0 \<le> sint c \<and> sint c < 2147483647 \<and> c \<noteq> kInvalidCookie K \<longrightarrow>
      JavaCookieToApkAssetsCookie K (ApkAssetsCookieToJavaCookie K c) = c \<and>
      0 < sint (ApkAssetsCookieToJavaCookie K c)) \<and>
   ApkAssetsCookieToJavaCookie K (kInvalidCookie K) = - 1 \<and>
   JavaCookieToApkAssetsCookie K (- 1) = kInvalidCookie K \<and>
   (sint j \<le> 0 \<longrightarrow> JavaCookieToApkAssetsCookie K j = kInvalidCookie K)"
proof -
  have "JavaCookieToApkAssetsCookie K (ApkAssetsCookieToJavaCookie K c) = c \<and>
        0 < sint (ApkAssetsCookieToJavaCookie K c)"
    if "0 \<le> sint c" "sint c < 2147483647" "c \<noteq> kInvalidCookie K"
  proof -
    from that have "sint (c + 1) = sint c + 1"
      by (simp add: sint_succ_in_range)
    with that show ?thesis
      by (simp add: JavaCookieToApkAssetsCookie_def ApkAssetsCookieToJavaCookie_def)
  qed
  moreover have "ApkAssetsCookieToJavaCookie K (kInvalidCookie K) = - 1"
    by (simp add: ApkAssetsCookieToJavaCookie_def)
  moreover have "JavaCookieToApkAssetsCookie K (- 1) = kInvalidCookie K"
    by (simp add: JavaCookieToApkAssetsCookie_def)
  moreover have "JavaCookieToApkAssetsCookie K j = kInvalidCookie K" if "sint j \<le> 0"
    using that by (simp add: JavaCookieToApkAssetsCookie_def)
  ultimately show ?thesis
    by blast
qed

text \<open>
  Claim C1, witness: the cookie 5 under the platform's constants.
\<close>

theorem cookie_round_trip_witness:
  "0 \<le> sint (5 :: 32 word) \<and> sint (5 :: 32 word) < 2147483647 \<and>
   (5 :: 32 word) \<noteq> kInvalidCookie platform \<and>
   JavaCookieToApkAssetsCookie platform (ApkAssetsCookieToJavaCookie platform 5) = 5 \<and>
   sint (0 :: 32 word) \<le> 0 \<and>
   JavaCookieToApkAssetsCookie platform 0 = kInvalidCookie platform"
  using cookie_round_trip [of 5 platform 0]
  by (simp add: platform_def)

section \<open>\<open>CopyValue\<close>\<close>

text \<open>
  Claim C10. \<open>CopyValue\<close> stores the type, the data, the resolved resource id, the
  changing-configurations flags and the matched density of the selected value, stores the
  cookie translated by \<open>ApkAssetsCookieToJavaCookie\<close>, resets the string field to null
  whatever the type of the value, leaves every other field of the object as it was, and
  returns the translated cookie it stored.
\<close>

theorem CopyValue_contract:
  "mType (snd (CopyValue K v tv)) = ucast (type v) \<and>
   mData (snd (CopyValue K v tv)) = data v \<and>
   mResourceId (snd (CopyValue K v tv)) = resid v \<and>
   mChangingConfigurations (snd (CopyValue K v tv)) = flags v \<and>
   mDensity (snd (CopyValue K v tv)) = ucast (density (config v)) \<and>
   mAssetCookie (snd (CopyValue K v tv)) = ApkAssetsCookieToJavaCookie K (cookie v) \<and>
   mString (snd (CopyValue K v tv)) = None \<and>
   TypedValue.more (snd (CopyValue K v tv)) = TypedValue.more tv \<and>
   fst (CopyValue K v tv) = mAssetCookie (snd (CopyValue K v tv))"
  by (simp add: CopyValue_def Let_def)

section \<open>Looking a bag entry up by its key\<close>

lemma invalid_java_cookie: "ApkAssetsCookieToJavaCookie K (kInvalidCookie K) = - 1"
  by (simp add: ApkAssetsCookieToJavaCookie_def)

lemma find_first_match:
  "\<forall>x \<in> set xs. \<not> P x \<Longrightarrow> P e \<Longrightarrow> find P (xs @ e # ys) = Some e"
  by (induction xs) auto

lemma find_rev_last_match:
  "P e \<Longrightarrow> \<forall>x \<in> set post. \<not> P x \<Longrightarrow> find P (rev (pre @ e # post)) = Some e"
  using find_first_match [of "rev post" P e "rev pre"] by simp

text \<open>
  Claim C3. Let \<open>bag\<close> be the bag of the resource. When no entry of the bag has the key \<open>k\<close>,
  \<open>NativeGetResourceBagValue\<close> returns the invalid cookie \<open>-1\<close> and leaves the output object
  alone. When \<open>e\<close> is the last entry in the order of the bag whose key is \<open>k\<close> (no entry
  after it has that key, whatever comes before it), the function returns the value of \<open>e\<close>
  as the engine resolves it to \<open>v\<close>: the returned cookie is the cookie of \<open>v\<close> plus one
  (\<open>-1\<close> only for \<open>kInvalidCookie\<close>), and the output object holds the type, the data, the
  resource id, the flags and the density of \<open>v\<close>, that cookie, and no string. It reports
  not-found, with the output object alone, when the engine cannot resolve the value of \<open>e\<close>.
\<close>

theorem bag_value_last_match:
  assumes "GetBag am res = Some bag"
  shows "((\<forall>e \<in> set (entries bag). key e \<noteq> k) \<longrightarrow>
            NativeGetResourceBagValue K am res k tv = Returns (- 1, tv)) \<and>
         (entries bag = pre @ e # post \<and> key e = k \<and> (\<forall>x \<in> set post. key x \<noteq> k) \<longrightarrow>
            (case ResolveReference am (entry_value e) of
               None \<Rightarrow> NativeGetResourceBagValue K am res k tv = Returns (- 1, tv)
             | Some v \<Rightarrow>
                 NativeGetResourceBagValue K am res k tv =
                   Returns
                     (if cookie v \<noteq> kInvalidCookie K then cookie v + 1 else - 1,
                      tv\<lparr>mType := ucast (type v),
                         mData := data v,
                         mString := None,
                         mAssetCookie :=
                           (if cookie v \<noteq> kInvalidCookie K then cookie v + 1 else - 1),
                         mResourceId := resid v,
                         mChangingConfigurations := flags v,
                         mDensity := ucast (density (config v))\<rparr>)))"
proof (intro conjI impI)
  assume "\<forall>e \<in> set (entries bag). key e \<noteq> k"
  then have "find (\<lambda>e. key e = k) (rev (entries bag)) = None"
    by (simp add: find_None_iff)
  with assms show "NativeGetResourceBagValue K am res k tv = Returns (- 1, tv)"
    by (simp add: NativeGetResourceBagValue_def invalid_java_cookie)
next
  assume h: "entries bag = pre @ e # post \<and> key e = k \<and> (\<forall>x \<in> set post. key x \<noteq> k)"
  then have found: "find (\<lambda>e. key e = k) (rev (entries bag)) = Some e"
    using find_rev_last_match [of "\<lambda>e. key e = k" e post pre] by simp
  show "case ResolveReference am (entry_value e) of
          None \<Rightarrow> NativeGetResourceBagValue K am res k tv = Returns (- 1, tv)
        | Some v \<Rightarrow>
            NativeGetResourceBagValue K am res k tv =
              Returns
                (if cookie v \<noteq> kInvalidCookie K then cookie v + 1 else - 1,
                 tv\<lparr>mType := ucast (type v),
                    mData := data v,
                    mString := None,
                    mAssetCookie :=
                      (if cookie v \<noteq> kInvalidCookie K then cookie v + 1 else - 1),
                    mResourceId := resid v,
                    mChangingConfigurations := flags v,
                    mDensity := ucast (density (config v))\<rparr>)"
  proof (cases "ResolveReference am (entry_value e)")
    case None
    with assms found show ?thesis
      by (simp add: NativeGetResourceBagValue_def SelectedValue_of_def invalid_java_cookie)
  next
    case (Some v)
    with assms found show ?thesis
      by (simp add: NativeGetResourceBagValue_def SelectedValue_of_def CopyValue_def
          ApkAssetsCookieToJavaCookie_def Let_def)
  qed
qed

text \<open>
  Claim C3, witness: in the example bag two entries have the key 7; the earlier one holds
  the integer 1 and the later one the integer 2, and the lookup returns the cookie 1 with
  the type 16 and the data 2 in the output object, whose stale string is reset. No entry
  has the key 8.
\<close>

theorem bag_value_last_match_witness:
  "GetBag (example_manager example_bag self_reference Some) 0x7f010000 = Some example_bag \<and>
   NativeGetResourceBagValue platform (example_manager example_bag self_reference Some)
       0x7f010000 7 blank_typed_value
     = Returns (1, \<lparr>mType = 16, mData = 2, mString = None, mAssetCookie = 1, mResourceId = 0,
                     mChangingConfigurations = 0, mDensity = 0\<rparr>) \<and>
   NativeGetResourceBagValue platform (example_manager example_bag self_reference Some)
       0x7f010000 8 blank_typed_value
     = Returns (- 1, blank_typed_value)"
  using
    bag_value_last_match [of "example_manager example_bag self_reference Some" "0x7f010000"
      example_bag 7 platform blank_typed_value
      "[\<lparr>key = 7, entry_value = plain_value 16 1\<rparr>]"
      "\<lparr>key = 7, entry_value = plain_value 16 2\<rparr>"
      "[\<lparr>key = 9, entry_value = plain_value 16 3\<rparr>]"]
    bag_value_last_match [of "example_manager example_bag self_reference Some" "0x7f010000"
      example_bag 8 platform blank_typed_value]
  by (simp add: example_manager_def example_bag_def plain_value_def zero_config_def
      blank_typed_value_def platform_def)

section \<open>Indirection overrun\<close>

lemma resolve_loop_None_iff:
  "resolve_loop K deref n v = None \<longleftrightarrow>
     (\<forall>i \<le> n. case chain deref i v of None \<Rightarrow> True | Some w \<Rightarrow> \<not> terminal K w)"
proof (induction n arbitrary: v)
  case 0
  then show ?case by simp
next
  case (Suc n)
  show ?case
  proof (cases "terminal K v")
    case True
    then have "\<not> (case chain deref 0 v of None \<Rightarrow> True | Some w \<Rightarrow> \<not> terminal K w)"
      by simp
    then have "\<not> (\<forall>i \<le> Suc n. case chain deref i v of None \<Rightarrow> True | Some w \<Rightarrow> \<not> terminal K w)"
      by blast
    with True show ?thesis by simp
  next
    case False
    show ?thesis
    proof (cases "deref v")
      case None
      have "(case chain deref i v of None \<Rightarrow> True | Some w \<Rightarrow> \<not> terminal K w)" for i
        using None False by (cases i) simp_all
      with None False show ?thesis by simp
    next
      case (Some v')
      have "(\<forall>i \<le> Suc n. case chain deref i v of None \<Rightarrow> True | Some w \<Rightarrow> \<not> terminal K w)
            \<longleftrightarrow> (\<forall>i \<le> n. case chain deref i v' of None \<Rightarrow> True | Some w \<Rightarrow> \<not> terminal K w)"
        (is "?L \<longleftrightarrow> ?R")
      proof
        assume l: ?L
        show ?R
        proof (intro allI impI)
          fix i assume "i \<le> n"
          then have "Suc i \<le> Suc n" by simp
          with l have "case chain deref (Suc i) v of None \<Rightarrow> True | Some w \<Rightarrow> \<not> terminal K w"
            by blast
          with Some show "case chain deref i v' of None \<Rightarrow> True | Some w \<Rightarrow> \<not> terminal K w"
            by simp
        qed
      next
        assume r: ?R
        show ?L
        proof (intro allI impI)
          fix i assume "i \<le> Suc n"
          then show "case chain deref i v of None \<Rightarrow> True | Some w \<Rightarrow> \<not> terminal K w"
            using r Some False by (cases i) simp_all
        qed
      qed
      with Some False Suc.IH [of v'] show ?thesis by simp
    qed
  qed
qed

lemma overruns_fails: "overruns K deref v \<Longrightarrow> spec_ResolveReference K deref v = None"
  by (simp add: overruns_def spec_ResolveReference_def resolve_loop_None_iff)

lemma chain_self_deref: "chain self_deref i self_reference = Some self_reference"
  by (induction i) (simp_all add: self_deref_def self_reference_def plain_value_def)

text \<open>
  Claim C5. When the resource is found and the chain of references and attribute
  references that starts at its value reaches no terminal type within the depth bound,
  \<open>NativeGetResourceValue\<close> called with \<open>resolve_references\<close> true returns the invalid Java
  cookie \<open>-1\<close> as a normal result, with no exception pending and the output object
  untouched. The resolution loop is a total function: it stops after at most
  \<open>kMaxIterations\<close> indirections.
\<close>

theorem indirection_overrun_not_found:
  assumes "GetResource am res False dens = Some v"
    and "overruns K deref v"
  shows "NativeGetResourceValue K (am\<lparr>ResolveReference := spec_ResolveReference K deref\<rparr>)
           res dens tv True = Returns (- 1, tv)"
  using assms
  by (simp add: NativeGetResourceValue_def overruns_fails invalid_java_cookie)

text \<open>
  Claim C5, witness: a resource whose value refers to itself. Every value of its chain is
  the same reference, so the chain overruns, and the lookup reports not-found.
\<close>

theorem indirection_overrun_not_found_witness:
  "GetResource (example_manager example_bag self_reference Some) 0x7f020000 False 0
     = Some self_reference \<and>
   overruns platform self_deref self_reference \<and>
   NativeGetResourceValue platform
       ((example_manager example_bag self_reference Some)
          \<lparr>ResolveReference := spec_ResolveReference platform self_deref\<rparr>)
       0x7f020000 0 blank_typed_value True
     = Returns (- 1, blank_typed_value)"
proof -
  have found: "GetResource (example_manager example_bag self_reference Some) 0x7f020000 False 0
      = Some self_reference"
    by (simp add: example_manager_def)
  have "\<not> terminal platform self_reference"
    by (simp add: terminal_def platform_def self_reference_def plain_value_def)
  then have over: "overruns platform self_deref self_reference"
    by (simp add: overruns_def chain_self_deref)
  from found over indirection_overrun_not_found [OF found over, of blank_typed_value]
  show ?thesis by simp
qed

section \<open>The flattened table of a bag\<close>

lemma ucast_8_32_back: "(ucast (ucast (a :: 8 word) :: 32 word) :: 8 word) = a"
  by (rule ucast_up_ucast_id) (simp add: is_up)

lemma ucast_8_32_inj: "(ucast (a :: 8 word) :: 32 word) = ucast (b :: 8 word) \<longleftrightarrow> a = b"
  by (metis ucast_8_32_back)

lemma store_Some: "store b i x = Some b' \<longleftrightarrow> i < length b \<and> b' = b[i := x]"
  by (auto simp: store_def)

lemma store_entry_Some:
  assumes "store_entry K buf c v = Some b'"
  shows "length b' = length buf"
    and "\<And>j. j < c \<Longrightarrow> b' ! j = buf ! j"
    and "c + STYLE_TYPE K < length buf"
    and "c + STYLE_DATA K < length buf"
    and "c + STYLE_ASSET_COOKIE K < length buf"
    and "c + STYLE_RESOURCE_ID K < length buf"
    and "c + STYLE_CHANGING_CONFIGURATIONS K < length buf"
    and "c + STYLE_DENSITY K < length buf"
    and "layout_ok K \<Longrightarrow> b' ! (c + STYLE_TYPE K) = ucast (type v)"
    and "layout_ok K \<Longrightarrow> b' ! (c + STYLE_DATA K) = data v"
    and "layout_ok K \<Longrightarrow> b' ! (c + STYLE_ASSET_COOKIE K) = ApkAssetsCookieToJavaCookie K (cookie v)"
    and "layout_ok K \<Longrightarrow> b' ! (c + STYLE_RESOURCE_ID K) = resid v"
    and "layout_ok K \<Longrightarrow> b' ! (c + STYLE_CHANGING_CONFIGURATIONS K) = flags v"
    and "layout_ok K \<Longrightarrow> b' ! (c + STYLE_DENSITY K) = ucast (density (config v))"
  using assms
  by (auto simp: store_entry_def store_Some Option.bind_eq_Some_conv layout_ok_def)

text \<open>
  What the loop has stored when it ends with all entries stored: below the cursor it started
  from nothing changed, and the type and data slots of entry \<open>i\<close> hold the resolved value
  of that entry after the \<open>@null\<close> rewrite.
\<close>

lemma store_entries_Stored:
  assumes "layout_ok K"
    and "store_entries K am bag es c buf = Stored buf'"
  shows "length buf' = length buf \<and>
         (\<forall>j < c. buf' ! j = buf ! j) \<and>
         (\<forall>i < length es. \<exists>r. ResolveReference am (SelectedValue_of bag (es ! i)) = Some r \<and>
            c + i * STYLE_NUM_ENTRIES K + STYLE_TYPE K < length buf' \<and>
            c + i * STYLE_NUM_ENTRIES K + STYLE_DATA K < length buf' \<and>
            buf' ! (c + i * STYLE_NUM_ENTRIES K + STYLE_TYPE K)
              = ucast (type (null_reference_to_TYPE_NULL K r)) \<and>
            buf' ! (c + i * STYLE_NUM_ENTRIES K + STYLE_DATA K)
              = data (null_reference_to_TYPE_NULL K r))"
  using assms(2)
proof (induction es arbitrary: c buf)
  case Nil
  then show ?case by simp
next
  case (Cons e es)
  from Cons.prems obtain r b1 where
    r: "ResolveReference am (SelectedValue_of bag e) = Some r"
    and b1: "store_entry K buf c (null_reference_to_TYPE_NULL K r) = Some b1"
    and rest: "store_entries K am bag es (c + STYLE_NUM_ENTRIES K) b1 = Stored buf'"
    by (auto split: option.splits)
  note ih = Cons.IH [OF rest]
  note s = store_entry_Some [OF b1]
  have lt: "STYLE_TYPE K < STYLE_NUM_ENTRIES K" "STYLE_DATA K < STYLE_NUM_ENTRIES K"
    using assms(1) by (simp_all add: layout_ok_def)
  have len: "length buf' = length buf"
    using ih s(1) by simp
  have below: "\<forall>j < c. buf' ! j = buf ! j"
    using ih s(2) by simp
  have slots: "\<exists>r. ResolveReference am (SelectedValue_of bag ((e # es) ! i)) = Some r \<and>
            c + i * STYLE_NUM_ENTRIES K + STYLE_TYPE K < length buf' \<and>
            c + i * STYLE_NUM_ENTRIES K + STYLE_DATA K < length buf' \<and>
            buf' ! (c + i * STYLE_NUM_ENTRIES K + STYLE_TYPE K)
              = ucast (type (null_reference_to_TYPE_NULL K r)) \<and>
            buf' ! (c + i * STYLE_NUM_ENTRIES K + STYLE_DATA K)
              = data (null_reference_to_TYPE_NULL K r)" if "i < length (e # es)" for i
  proof (cases i)
    case 0
    have "buf' ! (c + STYLE_TYPE K) = b1 ! (c + STYLE_TYPE K)"
         "buf' ! (c + STYLE_DATA K) = b1 ! (c + STYLE_DATA K)"
      using ih lt by simp_all
    with 0 r s(3,4) s(9,10) [OF assms(1)] len show ?thesis by simp
  next
    case (Suc i')
    with that have "i' < length es" by simp
    with ih obtain r' where
      "ResolveReference am (SelectedValue_of bag (es ! i')) = Some r'"
      "c + STYLE_NUM_ENTRIES K + i' * STYLE_NUM_ENTRIES K + STYLE_TYPE K < length buf'"
      "c + STYLE_NUM_ENTRIES K + i' * STYLE_NUM_ENTRIES K + STYLE_DATA K < length buf'"
      "buf' ! (c + STYLE_NUM_ENTRIES K + i' * STYLE_NUM_ENTRIES K + STYLE_TYPE K)
         = ucast (type (null_reference_to_TYPE_NULL K r'))"
      "buf' ! (c + STYLE_NUM_ENTRIES K + i' * STYLE_NUM_ENTRIES K + STYLE_DATA K)
         = data (null_reference_to_TYPE_NULL K r')"
      by blast
    with Suc show ?thesis by (simp add: add.assoc)
  qed
  from len below slots show ?case by blast
qed


lemma NativeGetResourceArray_success:
  assumes "GetBag am res = Some bag"
    and "NativeGetResourceArray K env am res out_data = Returns (ret, out')"
    and "0 \<le> sint ret"
  shows "store_entries K am bag (entries bag) 0 out_data = Stored out'"
proof (cases "store_entries K am bag (entries bag) 0 out_data")
  case (Stored buffer)
  with assms show ?thesis
    by (auto simp: NativeGetResourceArray_def ReleasePrimitiveArrayCritical_def
        split: if_splits)
next
  case (Unresolved buffer)
  with assms show ?thesis
    by (auto simp: NativeGetResourceArray_def split: if_splits)
next
  case Overrun
  with assms show ?thesis
    by (auto simp: NativeGetResourceArray_def split: if_splits)
qed

text \<open>
  Claim C4. Take a call of \<open>NativeGetResourceArray\<close> that stores the bag (it returns a
  count that is not negative) and an entry of the bag whose value, after reference
  resolution, is a reference (\<open>TYPE_REFERENCE\<close>) to resource id 0. In the output array the
  type slot of that entry holds \<open>TYPE_NULL\<close> and its data slot holds
  \<open>DATA_NULL_UNDEFINED\<close>; both slots lie inside the array, and the type slot does not
  hold \<open>TYPE_REFERENCE\<close>, so the entry is not written as a dangling reference.
\<close>

theorem null_reference_written_as_TYPE_NULL:
  assumes "layout_ok K"
    and "GetBag am res = Some bag"
    and "NativeGetResourceArray K env am res out_data = Returns (ret, out')"
    and "0 \<le> sint ret"
    and "i < entry_count bag"
    and "ResolveReference am (SelectedValue_of bag (entries bag ! i)) = Some r"
    and "type r = TYPE_REFERENCE K"
    and "data r = 0"
  shows "i * STYLE_NUM_ENTRIES K + STYLE_TYPE K < length out' \<and>
         i * STYLE_NUM_ENTRIES K + STYLE_DATA K < length out' \<and>
         out' ! (i * STYLE_NUM_ENTRIES K + STYLE_TYPE K) = ucast (TYPE_NULL K) \<and>
         out' ! (i * STYLE_NUM_ENTRIES K + STYLE_DATA K) = DATA_NULL_UNDEFINED K \<and>
         (TYPE_NULL K \<noteq> TYPE_REFERENCE K \<longrightarrow>
            out' ! (i * STYLE_NUM_ENTRIES K + STYLE_TYPE K) \<noteq> ucast (TYPE_REFERENCE K))"
proof -
  have "store_entries K am bag (entries bag) 0 out_data = Stored out'"
    using assms(2,3,4) by (rule NativeGetResourceArray_success)
  from store_entries_Stored [OF assms(1) this] assms(5)
  obtain r' where
    "ResolveReference am (SelectedValue_of bag (entries bag ! i)) = Some r'"
    "0 + i * STYLE_NUM_ENTRIES K + STYLE_TYPE K < length out'"
    "0 + i * STYLE_NUM_ENTRIES K + STYLE_DATA K < length out'"
    "out' ! (0 + i * STYLE_NUM_ENTRIES K + STYLE_TYPE K)
       = ucast (type (null_reference_to_TYPE_NULL K r'))"
    "out' ! (0 + i * STYLE_NUM_ENTRIES K + STYLE_DATA K)
       = data (null_reference_to_TYPE_NULL K r')"
    unfolding entry_count_def by blast
  with assms(6,7,8) show ?thesis
    by (simp add: null_reference_to_TYPE_NULL_def ucast_8_32_inj)
qed

text \<open>
  Claim C4, witness: a bag whose one entry is the \<open>@null\<close> reference, stored into an array
  of one stride.
\<close>

theorem null_reference_written_as_TYPE_NULL_witness:
  "layout_ok platform \<and>
   GetBag (example_manager null_bag self_reference Some) 0x7f010000 = Some null_bag \<and>
   NativeGetResourceArray platform example_env (example_manager null_bag self_reference Some)
       0x7f010000 [9, 9, 9, 9, 9, 9, 9]
     = Returns (1, [0, 0, 1, 0, 0, 0, 9]) \<and>
   0 \<le> sint (1 :: 32 word) \<and>
   0 < entry_count null_bag \<and>
   ResolveReference (example_manager null_bag self_reference Some)
       (SelectedValue_of null_bag (entries null_bag ! 0))
     = Some (plain_value 1 0) \<and>
   type (plain_value 1 0) = TYPE_REFERENCE platform \<and>
   data (plain_value 1 0) = 0 \<and>
   [0, 0, 1, 0, 0, 0, 9 :: 32 word] ! (0 * STYLE_NUM_ENTRIES platform + STYLE_TYPE platform)
     = ucast (TYPE_NULL platform) \<and>
   [0, 0, 1, 0, 0, 0, 9 :: 32 word] ! (0 * STYLE_NUM_ENTRIES platform + STYLE_DATA platform)
     = DATA_NULL_UNDEFINED platform"
proof -
  have h1: "layout_ok platform"
    by (simp add: layout_ok_def platform_def)
  have h2: "GetBag (example_manager null_bag self_reference Some) 0x7f010000 = Some null_bag"
    by (simp add: example_manager_def)
  have h3: "NativeGetResourceArray platform example_env
       (example_manager null_bag self_reference Some) 0x7f010000 [9, 9, 9, 9, 9, 9, 9]
     = Returns (1, [0, 0, 1, 0, 0, 0, 9])"
    by (simp add: NativeGetResourceArray_def platform_def example_env_def example_manager_def
        null_bag_def entry_count_def store_entry_def store_def SelectedValue_of_def
        null_reference_to_TYPE_NULL_def plain_value_def zero_config_def
        ReleasePrimitiveArrayCritical_def ApkAssetsCookieToJavaCookie_def)
  have h4: "0 \<le> sint (1 :: 32 word)"
    by simp
  have h5: "0 < entry_count null_bag"
    by (simp add: entry_count_def null_bag_def)
  have h6: "ResolveReference (example_manager null_bag self_reference Some)
       (SelectedValue_of null_bag (entries null_bag ! 0)) = Some (plain_value 1 0)"
    by (simp add: example_manager_def SelectedValue_of_def null_bag_def)
  have h7: "type (plain_value 1 0) = TYPE_REFERENCE platform"
    by (simp add: plain_value_def platform_def)
  have h8: "data (plain_value 1 0) = 0"
    by (simp add: plain_value_def)
  from null_reference_written_as_TYPE_NULL [OF h1 h2 h3 h4 h5 h6 h7 h8]
    h1 h2 h3 h4 h5 h6 h7 h8
  show ?thesis by simp
qed

text \<open>
  Claim C2, at a failing input: the bag has one entry, which needs
  \<open>STYLE_NUM_ENTRIES = 7\<close> elements, and the output array has one element. The size check
  compares \<open>entry_count\<close> with \<open>out_data_length * STYLE_NUM_ENTRIES\<close>, that is 1 with 7,
  and lets the call through; no exception is thrown, and the second store of the entry
  falls outside the array.
\<close>

theorem undersized_buffer_not_rejected:
  "length [0 :: 32 word] < entry_count null_bag * STYLE_NUM_ENTRIES platform \<and>
   NativeGetResourceArray platform example_env (example_manager null_bag self_reference Some)
       0x7f010000 [0]
     = UndefinedBehaviour"
  by (simp add: NativeGetResourceArray_def platform_def example_env_def example_manager_def
      null_bag_def entry_count_def store_entry_def store_def SelectedValue_of_def
      null_reference_to_TYPE_NULL_def plain_value_def)

section \<open>Access modes\<close>

text \<open>
  Claim C6. For every \<open>access_mode\<close> that is none of \<open>ACCESS_UNKNOWN\<close>, \<open>ACCESS_RANDOM\<close>,
  \<open>ACCESS_STREAMING\<close>, \<open>ACCESS_BUFFER\<close>, both \<open>NativeOpenAsset\<close> and \<open>NativeOpenNonAsset\<close>
  throw the exception of a malformed argument and return 0 without a call to an opening
  operation of the engine: \<open>IllegalArgumentException\<close> when they are given an asset path,
  and the \<open>NullPointerException\<close> of the path check, which comes first, when the path is
  \<open>null\<close>.
\<close>

theorem bad_access_mode_rejected:
  assumes "access_mode \<notin> {ACCESS_UNKNOWN K, ACCESS_RANDOM K, ACCESS_STREAMING K, ACCESS_BUFFER K}"
  shows "NativeOpenAsset K am (Some p) access_mode = (Throws IllegalArgumentException 0, []) \<and>
         NativeOpenNonAsset K am jcookie (Some p) access_mode
           = (Throws IllegalArgumentException 0, []) \<and>
         NativeOpenAsset K am asset_path access_mode
           = (Throws (case asset_path of
                        None \<Rightarrow> NullPointerException
                      | Some q \<Rightarrow> IllegalArgumentException) 0, []) \<and>
         NativeOpenNonAsset K am jcookie asset_path access_mode
           = (Throws (case asset_path of
                        None \<Rightarrow> NullPointerException
                      | Some q \<Rightarrow> IllegalArgumentException) 0, [])"
proof -
  from assms have bad: "bad_access_mode K access_mode"
    by (simp add: bad_access_mode_def)
  then show ?thesis
    by (cases asset_path) (simp_all add: NativeOpenAsset_def NativeOpenNonAsset_def Let_def)
qed

text \<open>
  Claim C6, witness: the access mode 7 under the platform's constants, where the four
  modes are 0 to 3.
\<close>

theorem bad_access_mode_rejected_witness:
  "(7 :: 32 word) \<notin> {ACCESS_UNKNOWN platform, ACCESS_RANDOM platform,
       ACCESS_STREAMING platform, ACCESS_BUFFER platform} \<and>
   NativeOpenAsset platform (example_manager example_bag self_reference Some)
       (Some ''images/logo.png'') 7
     = (Throws IllegalArgumentException 0, []) \<and>
   NativeOpenNonAsset platform (example_manager example_bag self_reference Some) 1
       (Some ''res/raw/data.bin'') 7
     = (Throws IllegalArgumentException 0, [])"
proof -
  have bad: "(7 :: 32 word) \<notin> {ACCESS_UNKNOWN platform, ACCESS_RANDOM platform,
       ACCESS_STREAMING platform, ACCESS_BUFFER platform}"
    by (simp add: platform_def)
  from bad
    bad_access_mode_rejected [OF bad,
      of "example_manager example_bag self_reference Some" "''images/logo.png''" 1 None]
    bad_access_mode_rejected [OF bad,
      of "example_manager example_bag self_reference Some" "''res/raw/data.bin''" 1 None]
  show ?thesis by simp
qed

section \<open>The round qualifier of the screen layout\<close>

lemma mask_0x300: "(0x300 :: 32 word) = push_bit 8 (mask 2)"
  by (simp add: mask_eq_exp_minus_1)

lemma mask_0x3FF: "(0x3FF :: 32 word) = mask 10"
  by (simp add: mask_eq_exp_minus_1)

lemma round_bits_ucast:
  "(ucast (signed_drop_bit 8 ((w :: 32 word) AND 0x300)) :: 8 word)
     = ucast (drop_bit 8 (w AND 0x300))"
  unfolding mask_0x300
  by (rule bit_word_eqI) (auto simp: bit_simps)

lemma round_bit_iff:
  "bit (ucast (signed_drop_bit 8 ((w :: 32 word) AND 0x300)) :: 8 word) n
     \<longleftrightarrow> n < 2 \<and> bit w (8 + n)"
  unfolding mask_0x300
  by (auto simp: bit_simps)

lemma low_byte: "unat (ucast (w :: 32 word) :: 8 word) = unat w mod 256"
  by (simp add: unsigned_ucast_eq take_bit_eq_mod)

lemma repack:
  "push_bit 8 (ucast (ucast (signed_drop_bit 8 ((w :: 32 word) AND 0x300)) :: 8 word))
     OR ucast (ucast w :: 8 word)
     = w AND 0x3FF"
  unfolding mask_0x300 mask_0x3FF
  by (rule bit_word_eqI) (auto simp: bit_simps)

lemma set_locales_all:
  "set_locales sb (map Some ls) c = Some (map (\<lambda>l. sb l c) ls)"
  by (induction ls) simp_all

text \<open>
  Claim C9. For every 32-bit \<open>screen_layout\<close>, the 8-bit field \<open>screenLayout\<close> of the
  configuration receives the truncated low byte and the field \<open>screenLayout2\<close> receives
  \<open>(screen_layout & 0x300) >> 8\<close>: its bits 0 and 1 are the bits 8 and 9 of the
  argument, so the two fields together still hold the low ten bits of the argument. The
  configuration with these fields is the one handed to the engine, as it is when the call
  has no locales (a \<open>null\<close> or an empty array) and with the locale set on a copy of it
  for each locale otherwise.
\<close>

theorem screen_layout_round_qualifier:
  "screenLayout
       (configuration mc mn ori tou den kbd kbh nav sw sh sswdp swdp shdp screen_layout
          ui col gg ver)
     = ucast screen_layout \<and>
   unat (screenLayout
       (configuration mc mn ori tou den kbd kbh nav sw sh sswdp swdp shdp screen_layout
          ui col gg ver))
     = unat screen_layout mod 256 \<and>
   screenLayout2
       (configuration mc mn ori tou den kbd kbh nav sw sh sswdp swdp shdp screen_layout
          ui col gg ver)
     = ucast (drop_bit 8 (screen_layout AND 0x300)) \<and>
   (bit (screenLayout2
       (configuration mc mn ori tou den kbd kbh nav sw sh sswdp swdp shdp screen_layout
          ui col gg ver)) n
      \<longleftrightarrow> n < 2 \<and> bit screen_layout (8 + n)) \<and>
   push_bit 8 (ucast (screenLayout2
       (configuration mc mn ori tou den kbd kbh nav sw sh sswdp swdp shdp screen_layout
          ui col gg ver)))
     OR ucast (screenLayout
       (configuration mc mn ori tou den kbd kbh nav sw sh sswdp swdp shdp screen_layout
          ui col gg ver))
     = screen_layout AND 0x3FF \<and>
   NativeSetConfiguration sb u mc mn dl None ori tou den kbd kbh nav sw sh sswdp swdp
       shdp screen_layout ui col gg ver fr
     = Returns
         ([configuration mc mn ori tou den kbd kbh nav sw sh sswdp swdp shdp
            screen_layout ui col gg ver], fr, case dl of None \<Rightarrow> 0 | Some l \<Rightarrow> config_locale (sb l u)) \<and>
   NativeSetConfiguration sb u mc mn dl (Some (map Some (l # ls))) ori tou den kbd kbh nav
       sw sh sswdp swdp shdp screen_layout ui col gg ver fr
     = Returns
         (map (\<lambda>x. sb x
                 (configuration mc mn ori tou den kbd kbh nav sw sh sswdp swdp shdp screen_layout
          ui col gg ver)) (l # ls),
          fr, case dl of None \<Rightarrow> 0 | Some l \<Rightarrow> config_locale (sb l u)) \<and>
   NativeSetConfiguration sb u mc mn dl (Some []) ori tou den kbd kbh nav sw sh sswdp swdp
       shdp screen_layout ui col gg ver fr
     = Returns
         ([configuration mc mn ori tou den kbd kbh nav sw sh sswdp swdp shdp
            screen_layout ui col gg ver], fr, case dl of None \<Rightarrow> 0 | Some l \<Rightarrow> config_locale (sb l u))"
proof -
  have l1: "screenLayout
       (configuration mc mn ori tou den kbd kbh nav sw sh sswdp swdp shdp screen_layout
          ui col gg ver)
     = ucast screen_layout"
    by (simp add: configuration_def)
  have l2: "screenLayout2
       (configuration mc mn ori tou den kbd kbh nav sw sh sswdp swdp shdp screen_layout
          ui col gg ver)
     = ucast (signed_drop_bit 8 (screen_layout AND 0x300))"
    by (simp add: configuration_def kScreenLayoutRoundMask_def kScreenLayoutRoundShift_def)
  have f2: "unat (screenLayout
       (configuration mc mn ori tou den kbd kbh nav sw sh sswdp swdp shdp screen_layout
          ui col gg ver))
     = unat screen_layout mod 256"
    unfolding l1 by (rule low_byte)
  have f3: "screenLayout2
       (configuration mc mn ori tou den kbd kbh nav sw sh sswdp swdp shdp screen_layout
          ui col gg ver)
     = ucast (drop_bit 8 (screen_layout AND 0x300))"
    unfolding l2 by (rule round_bits_ucast)
  have f4: "bit (screenLayout2
       (configuration mc mn ori tou den kbd kbh nav sw sh sswdp swdp shdp screen_layout
          ui col gg ver)) n
     \<longleftrightarrow> n < 2 \<and> bit screen_layout (8 + n)"
    unfolding l2 by (rule round_bit_iff)
  have f5: "push_bit 8 (ucast (screenLayout2
       (configuration mc mn ori tou den kbd kbh nav sw sh sswdp swdp shdp screen_layout
          ui col gg ver)))
     OR ucast (screenLayout
       (configuration mc mn ori tou den kbd kbh nav sw sh sswdp swdp shdp screen_layout
          ui col gg ver))
     = screen_layout AND 0x3FF"
    unfolding l1 l2 by (rule repack)
  have f6: "NativeSetConfiguration sb u mc mn dl None ori tou den kbd kbh nav sw sh sswdp swdp
       shdp screen_layout ui col gg ver fr
     = Returns
         ([configuration mc mn ori tou den kbd kbh nav sw sh sswdp swdp shdp
            screen_layout ui col gg ver], fr, case dl of None \<Rightarrow> 0 | Some l \<Rightarrow> config_locale (sb l u))"
    by (simp add: NativeSetConfiguration_def Let_def)
  have f7: "NativeSetConfiguration sb u mc mn dl (Some (map Some (l # ls))) ori tou den kbd
       kbh nav sw sh sswdp swdp shdp screen_layout ui col gg ver fr
     = Returns
         (map (\<lambda>x. sb x
                 (configuration mc mn ori tou den kbd kbh nav sw sh sswdp swdp shdp screen_layout
          ui col gg ver)) (l # ls),
          fr, case dl of None \<Rightarrow> 0 | Some l \<Rightarrow> config_locale (sb l u))"
    unfolding NativeSetConfiguration_def Let_def
    using set_locales_all [of sb "l # ls"] by simp
  have f8: "NativeSetConfiguration sb u mc mn dl (Some []) ori tou den kbd kbh nav sw sh
       sswdp swdp shdp screen_layout ui col gg ver fr
     = Returns
         ([configuration mc mn ori tou den kbd kbh nav sw sh sswdp swdp shdp
            screen_layout ui col gg ver], fr, case dl of None \<Rightarrow> 0 | Some l \<Rightarrow> config_locale (sb l u))"
    by (simp add: NativeSetConfiguration_def Let_def)
  from l1 f2 f3 f4 f5 f6 f7 f8 show ?thesis
    by (intro conjI)
qed

section \<open>The context of a Theme\<close>

text \<open>
  Claim C7, as amended. When the Theme is attached to a context other than the one the
  call locks, \<open>NativeThemeApplyStyle\<close>, \<open>NativeApplyStyle\<close>, \<open>NativeApplyStyleWithArray\<close>,
  \<open>NativeAttributeResolutionStack\<close>, \<open>NativeThemeGetAttributeValue\<close> and \<open>NativeThemeDump\<close>
  abort. \<open>NativeThemeCopy\<close> aborts when the source Theme is not attached to the source
  context, and when the two contexts differ and the destination Theme is not attached to
  the destination context. \<open>NativeResolveAttrs\<close> aborts once its size check has passed and
  its arrays are pinned, and in no case returns values of the engine. Nothing is stated
  for \<open>NativeThemeRebase\<close>, which has no such check.
\<close>

theorem theme_context_identity_check:
  assumes "GetAssetManager theme \<noteq> ptr"
  shows "NativeThemeApplyStyle contexts ptr theme res force = Abort \<and>
         NativeApplyStyle env engine_ApplyStyle ptr theme def_style_attr def_style_resid
             xml_parser java_attrs = Abort \<and>
         NativeApplyStyleWithArray engine_ApplyStyle ptr theme def_style_attr def_style_resid
             xml_parser java_attrs = Abort \<and>
         NativeAttributeResolutionStack K contexts ptr theme xml_style_res def_style_attr
             def_style_resid = Abort \<and>
         NativeThemeGetAttributeValue K contexts ptr theme res typed_value resolve_references
           = Abort \<and>
         NativeThemeDump ptr theme = Abort \<and>
         NativeThemeCopy dst_ptr dst_theme ptr theme = Abort \<and>
         (ptr \<noteq> src_ptr \<longrightarrow> NativeThemeCopy ptr theme src_ptr src_theme = Abort) \<and>
         (\<not> sint (word_of_nat (length out_java_values) :: jint)
              < sint (word_of_nat (length java_attrs) * word_of_nat (STYLE_NUM_ENTRIES K) :: jint) \<and>
          (\<forall>a. \<not> critical_null env a) \<longrightarrow>
            NativeResolveAttrs K env engine_ResolveAttrs ptr theme def_style_attr
                def_style_resid java_values java_attrs out_java_values out_java_indices
              = Abort) \<and>
         (\<forall>r. NativeResolveAttrs K env engine_ResolveAttrs ptr theme def_style_attr
                def_style_resid java_values java_attrs out_java_values out_java_indices
              \<noteq> Returns (True, Some r))"
  using assms
  by (simp add: NativeThemeApplyStyle_def NativeApplyStyle_def NativeApplyStyleWithArray_def
      NativeAttributeResolutionStack_def NativeThemeGetAttributeValue_def NativeThemeDump_def
      NativeThemeCopy_def NativeResolveAttrs_def Let_def)

text \<open>
  Claim C7, witness: a Theme attached to the context 2, presented to calls that lock the
  context 1.
\<close>

theorem theme_context_identity_check_witness:
  "GetAssetManager (NewTheme 2) \<noteq> 1 \<and>
   NativeThemeApplyStyle example_contexts 1 (NewTheme 2) 0x7f010000 False = Abort \<and>
   NativeAttributeResolutionStack platform example_contexts 1 (NewTheme 2) 0x7f010000 0 0
     = Abort \<and>
   NativeThemeGetAttributeValue platform example_contexts 1 (NewTheme 2) 0x7f010000
       blank_typed_value True = Abort \<and>
   NativeThemeDump 1 (NewTheme 2) = Abort \<and>
   NativeThemeCopy 3 (NewTheme 3) 1 (NewTheme 2) = Abort \<and>
   (1 :: 64 word) \<noteq> 3 \<and>
   NativeThemeCopy 1 (NewTheme 2) 3 (NewTheme 3) = Abort \<and>
   \<not> sint (word_of_nat (length [0, 0, 0, 0, 0, 0, 0 :: 32 word]) :: 32 word)
       < sint (word_of_nat (length [7 :: 32 word]) * word_of_nat (STYLE_NUM_ENTRIES platform)
                :: 32 word) \<and>
   NativeResolveAttrs platform example_env example_ResolveAttrs 1 (NewTheme 2) 0 0 None [7]
       [0, 0, 0, 0, 0, 0, 0] None = Abort"
proof -
  have h: "GetAssetManager (NewTheme 2) \<noteq> 1"
    by (simp add: NewTheme_def)
  note w = theme_context_identity_check [OF h,
      where contexts = example_contexts and res = "0x7f010000" and force = False
        and K = platform and xml_style_res = "0x7f010000" and def_style_attr = 0
        and def_style_resid = 0 and typed_value = blank_typed_value
        and resolve_references = True and dst_ptr = 3 and dst_theme = "NewTheme 3"
        and src_ptr = 3 and src_theme = "NewTheme 3" and env = example_env
        and engine_ResolveAttrs = example_ResolveAttrs and java_values = None
        and java_attrs = "[7]" and out_java_values = "[0, 0, 0, 0, 0, 0, 0]"
        and out_java_indices = None and xml_parser = "()"
        and engine_ApplyStyle = "\<lambda>t x a r as. ()"]
  have size: "\<not> sint (word_of_nat (length [0, 0, 0, 0, 0, 0, 0 :: 32 word]) :: 32 word)
       < sint (word_of_nat (length [7 :: 32 word]) * word_of_nat (STYLE_NUM_ENTRIES platform)
                :: 32 word)"
    by (simp add: platform_def)
  have pins: "\<forall>a. \<not> critical_null example_env a"
    by (simp add: example_env_def)
  have ne: "(1 :: 64 word) \<noteq> 3"
    by simp
  from h w size pins ne show ?thesis
    by simp
qed

text \<open>
  Claim C7, as stated, fails for the rebase: \<open>NativeThemeRebase\<close> locks the context 1, is
  given a Theme attached to the context 2, and returns normally, with the Theme attached
  to the context 1 and its table filled from the bag of that context.
\<close>

theorem theme_context_identity_check_counterexample:
  "GetAssetManager (NewTheme 2) \<noteq> 1 \<and>
   NativeThemeRebase example_contexts example_env 1 (NewTheme 2)
       (Some [0x7f010000]) (Some [False]) 1
     = Returns (ApplyStyle example_contexts (NewTheme 1) 0x7f010000 False) \<and>
   attributes (ApplyStyle example_contexts (NewTheme 1) 0x7f010000 False) 9
     = Some (plain_value 16 3)"
  by (simp add: NativeThemeRebase_def Rebase_def NewTheme_def example_env_def ApplyStyle_def
      example_contexts_def example_manager_def example_bag_def apply_entry_def
      SelectedValue_of_def)

section \<open>Rebasing a Theme\<close>

lemma sint_word_of_nat_32:
  "n < 2147483648 \<Longrightarrow> sint (word_of_nat n :: 32 word) = int n"
  by (simp add: signed_of_nat signed_take_bit_int_eq_self)

lemma ApplyStyle_GetAssetManager:
  "GetAssetManager (ApplyStyle contexts theme res force) = GetAssetManager theme"
  by (simp add: ApplyStyle_def split: option.splits)

lemma replay_GetAssetManager:
  "GetAssetManager (foldl (\<lambda>t (res, f). ApplyStyle contexts t res f) theme styles)
     = GetAssetManager theme"
  by (induction styles arbitrary: theme) (simp_all add: ApplyStyle_GetAssetManager split: prod.splits)

lemma apply_styles_replay:
  "GetAssetManager theme = ptr \<Longrightarrow>
   apply_styles contexts ptr theme styles
     = Returns (foldl (\<lambda>t (res, f). ApplyStyle contexts t res f) theme styles)"
proof (induction styles arbitrary: theme)
  case Nil
  then show ?case by simp
next
  case (Cons a styles)
  obtain res f where a: "a = (res, f)"
    by (cases a)
  have "GetAssetManager (ApplyStyle contexts theme res f) = ptr"
    using Cons.prems by (simp add: ApplyStyle_GetAssetManager)
  from Cons.IH [OF this] Cons.prems a show ?case
    by (simp add: NativeThemeApplyStyle_def)
qed

lemma cleared_theme:
  "theme\<lparr>GetAssetManager := ptr, attributes := Map.empty, rebase_log := []\<rparr> = NewTheme ptr"
  by (cases theme) (simp add: NewTheme_def)

lemma Rebase_replay:
  "Rebase contexts theme ptr (map fst styles) (map snd styles) (length styles)
     = foldl (\<lambda>t (res, f). ApplyStyle contexts t res f) (NewTheme ptr) styles"
  unfolding Rebase_def cleared_theme by (simp add: zip_map_fst_snd)

lemma NativeThemeRebase_replay:
  assumes "length styles < 2147483648"
    and "\<not> critical_null env Arg_style_ids"
    and "\<not> critical_null env Arg_force"
  shows "NativeThemeRebase contexts env ptr theme (Some (map fst styles))
           (Some (map snd styles)) (word_of_nat (length styles))
         = Returns (foldl (\<lambda>t (res, f). ApplyStyle contexts t res f) (NewTheme ptr) styles)"
proof -
  have n: "sint (word_of_nat (length styles) :: 32 word) = int (length styles)"
    using assms(1) by (rule sint_word_of_nat_32)
  show ?thesis
    using assms(2,3) Rebase_replay [of contexts theme ptr styles]
    by (simp add: NativeThemeRebase_def n Let_def)
qed

lemma ApplyStyle_not_found:
  "GetBag (contexts (GetAssetManager theme)) res = None \<Longrightarrow>
   ApplyStyle contexts theme res force = theme"
  by (simp add: ApplyStyle_def)

lemma rebase_log_replay:
  "GetAssetManager theme = ptr \<Longrightarrow>
   rebase_log (foldl (\<lambda>t (res, f). ApplyStyle contexts t res f) theme styles)
     = rebase_log theme @ filter (\<lambda>(res, f). GetBag (contexts ptr) res \<noteq> None) styles"
proof (induction styles arbitrary: theme)
  case Nil
  then show ?case by simp
next
  case (Cons a styles)
  obtain res f where a: "a = (res, f)"
    by (cases a)
  have "GetAssetManager (ApplyStyle contexts theme res f) = ptr"
    using Cons.prems by (simp add: ApplyStyle_GetAssetManager)
  from Cons.IH [OF this] Cons.prems a show ?case
    by (auto simp: ApplyStyle_def split: option.splits)
qed

lemma replay_found_only:
  "GetAssetManager theme = ptr \<Longrightarrow>
   foldl (\<lambda>t (res, f). ApplyStyle contexts t res f) theme
       (filter (\<lambda>(res, f). GetBag (contexts ptr) res \<noteq> None) styles)
     = foldl (\<lambda>t (res, f). ApplyStyle contexts t res f) theme styles"
proof (induction styles arbitrary: theme)
  case Nil
  then show ?case by simp
next
  case (Cons a styles)
  obtain res f where a: "a = (res, f)"
    by (cases a)
  have "GetAssetManager (ApplyStyle contexts theme res f) = ptr"
    using Cons.prems by (simp add: ApplyStyle_GetAssetManager)
  from Cons.IH [OF this] Cons.IH [OF Cons.prems] Cons.prems a show ?case
    by (auto simp: ApplyStyle_not_found)
qed

lemma replay_own_log:
  assumes "applied = foldl (\<lambda>t (res, f). ApplyStyle contexts t res f) (NewTheme ptr) styles"
  shows "foldl (\<lambda>t (res, f). ApplyStyle contexts t res f) (NewTheme ptr) (rebase_log applied)
           = applied"
    and "length (rebase_log applied) \<le> length styles"
proof -
  have p: "GetAssetManager (NewTheme ptr) = ptr"
    by (simp add: NewTheme_def)
  have log: "rebase_log applied = filter (\<lambda>(res, f). GetBag (contexts ptr) res \<noteq> None) styles"
    unfolding assms using rebase_log_replay [OF p, of contexts styles]
    by (simp add: NewTheme_def)
  show "foldl (\<lambda>t (res, f). ApplyStyle contexts t res f) (NewTheme ptr) (rebase_log applied)
           = applied"
    unfolding log using replay_found_only [OF p, of contexts styles] assms by simp
  show "length (rebase_log applied) \<le> length styles"
    unfolding log by simp
qed

text \<open>
  Claim C8. Take any context, any sequence of (style id, force) pairs and any Theme. The
  calls of \<open>NativeThemeApplyStyle\<close>, one per pair, on a Theme newly created in the context,
  and the one call of \<open>NativeThemeRebase\<close> with the same sequence in the same context both
  return, and the two Themes have the same flattened attribute table and the same rebase
  log. Replaying the rebase log of the resulting Theme with \<open>NativeThemeRebase\<close> gives that
  Theme again: the table is reproduced from the log.
\<close>

theorem rebase_equivalence:
  assumes "length styles < 2147483648"
    and "\<not> critical_null env Arg_style_ids"
    and "\<not> critical_null env Arg_force"
  shows "\<exists>applied rebased.
           apply_styles contexts ptr (NativeThemeCreate ptr) styles = Returns applied \<and>
           NativeThemeRebase contexts env ptr theme (Some (map fst styles))
               (Some (map snd styles)) (word_of_nat (length styles)) = Returns rebased \<and>
           attributes applied = attributes rebased \<and>
           rebase_log applied = rebase_log rebased \<and>
           GetAssetManager applied = ptr \<and> GetAssetManager rebased = ptr \<and>
           NativeThemeRebase contexts env ptr applied (Some (map fst (rebase_log applied)))
               (Some (map snd (rebase_log applied))) (word_of_nat (length (rebase_log applied)))
             = Returns applied"
proof -
  let ?t = "foldl (\<lambda>t (res, f). ApplyStyle contexts t res f) (NewTheme ptr) styles"
  have "GetAssetManager (NewTheme ptr) = ptr"
    by (simp add: NewTheme_def)
  then have a: "apply_styles contexts ptr (NativeThemeCreate ptr) styles = Returns ?t"
    unfolding NativeThemeCreate_def by (rule apply_styles_replay)
  have b: "NativeThemeRebase contexts env ptr theme (Some (map fst styles))
      (Some (map snd styles)) (word_of_nat (length styles)) = Returns ?t"
    using assms by (rule NativeThemeRebase_replay)
  have "length (rebase_log ?t) < 2147483648"
    using replay_own_log(2) [OF refl, of contexts ptr styles] assms(1) by simp
  then have "NativeThemeRebase contexts env ptr ?t (Some (map fst (rebase_log ?t)))
      (Some (map snd (rebase_log ?t))) (word_of_nat (length (rebase_log ?t)))
    = Returns (foldl (\<lambda>t (res, f). ApplyStyle contexts t res f) (NewTheme ptr) (rebase_log ?t))"
    using assms(2,3) by (rule NativeThemeRebase_replay)
  then have c: "NativeThemeRebase contexts env ptr ?t (Some (map fst (rebase_log ?t)))
      (Some (map snd (rebase_log ?t))) (word_of_nat (length (rebase_log ?t))) = Returns ?t"
    using replay_own_log(1) [OF refl, of contexts ptr styles] by simp
  have d: "GetAssetManager ?t = ptr"
    by (simp add: replay_GetAssetManager NewTheme_def)
  from a b c d show ?thesis
    by blast
qed

text \<open>
  Claim C8, witness: the example style applied twice, unforced and then forced, against a
  rebase of a Theme that was attached to another context.
\<close>

theorem rebase_equivalence_witness:
  "length [(0x7f010000 :: 32 word, False), (0x7f010000, True)] < 2147483648 \<and>
   \<not> critical_null example_env Arg_style_ids \<and>
   \<not> critical_null example_env Arg_force \<and>
   (\<exists>applied rebased.
      apply_styles example_contexts 1 (NativeThemeCreate 1)
          [(0x7f010000, False), (0x7f010000, True)] = Returns applied \<and>
      NativeThemeRebase example_contexts example_env 1 (NewTheme 2)
          (Some (map fst [(0x7f010000 :: 32 word, False), (0x7f010000, True)]))
          (Some (map snd [(0x7f010000 :: 32 word, False), (0x7f010000, True)]))
          (word_of_nat (length [(0x7f010000 :: 32 word, False), (0x7f010000, True)]))
        = Returns rebased \<and>
      attributes applied = attributes rebased \<and>
      rebase_log applied = rebase_log rebased \<and>
      GetAssetManager applied = 1 \<and> GetAssetManager rebased = 1 \<and>
      NativeThemeRebase example_contexts example_env 1 applied
          (Some (map fst (rebase_log applied))) (Some (map snd (rebase_log applied)))
          (word_of_nat (length (rebase_log applied)))
        = Returns applied)"
proof -
  have h1: "length [(0x7f010000 :: 32 word, False), (0x7f010000, True)] < 2147483648"
    by simp
  have h2: "\<not> critical_null example_env Arg_style_ids"
    and h3: "\<not> critical_null example_env Arg_force"
    by (simp_all add: example_env_def)
  from h1 h2 h3 rebase_equivalence [OF h1 h2 h3, of example_contexts 1 "NewTheme 2"]
  show ?thesis by (intro conjI)
qed

end
